theory Spec2Isabelle
  imports Complex_Main
begin

section \<open>Python values, exceptions and programs that call into libraries\<close>

text \<open>
  The notebook \<^verbatim>\<open>optuna/optuna_rapids.ipynb\<close> is glue code: every function it defines is a
  short sequence of calls into cuDF, cuML, Optuna, joblib, Dask and MLflow. None of these
  libraries is part of the repository, so the embedding keeps them outside: a function of
  the notebook becomes a \<^emph>\<open>program\<close>, a tree whose nodes are the library calls it issues
  (name, positional arguments, keyword arguments, functions handed over as callbacks) and
  whose branches are the possible answers of the library, an exception or a value.
  A library is a \<^emph>\<open>handler\<close> that answers calls and threads its own state; running a
  program against a handler gives the result, the final state and the list of calls made.
\<close>

datatype exn = PyErr string

datatype val =
    VNone
  | VBool bool
  | VInt int
  | VFloat real
  | VNaN
  | VStr string
  | VRef nat
  | VTuple "val list"
  | VList "val list"
  | VDict "(string \<times> val) list"
  | VFmt string "val list"
  | VExc exn
  | VFun nat

text \<open>
  \<open>VRef\<close> is an opaque library object (a frame, a classifier, a study, a trial).
  \<open>VFmt f xs\<close> is the string that \<^verbatim>\<open>f % xs\<close> or \<^verbatim>\<open>f.format(*xs)\<close> builds, kept
  unevaluated. \<open>VFun i\<close> stands, inside the arguments of a call, for the \<open>i\<close>-th function
  handed to that call.
\<close>

datatype prog =
    Return val
  | Raise exn
  | Call string "val list" "(string \<times> val) list" "(val list \<Rightarrow> prog) list" "exn + val \<Rightarrow> prog"

primrec pbind :: "prog \<Rightarrow> (val \<Rightarrow> prog) \<Rightarrow> prog" where
  "pbind (Return v) f = f v"
| "pbind (Raise e) f = Raise e"
| "pbind (Call n a kw cbs k) f = Call n a kw cbs (\<lambda>r. pbind (k r) f)"

text \<open>\<open>ptry\<close> is what a \<^verbatim>\<open>with\<close> statement needs: a continuation for each way the body ends.\<close>

primrec ptry :: "prog \<Rightarrow> (val \<Rightarrow> prog) \<Rightarrow> (exn \<Rightarrow> prog) \<Rightarrow> prog" where
  "ptry (Return v) f h = f v"
| "ptry (Raise e) f h = h e"
| "ptry (Call n a kw cbs k) f h = Call n a kw cbs (\<lambda>r. ptry (k r) f h)"

definition lift :: "exn + val \<Rightarrow> prog" where
  "lift r = (case r of Inl e \<Rightarrow> Raise e | Inr v \<Rightarrow> Return v)"

definition hcall :: "string \<Rightarrow> val list \<Rightarrow> (string \<times> val) list \<Rightarrow> (val list \<Rightarrow> prog) list \<Rightarrow> prog" where
  "hcall f as kw cbs = Call f as kw cbs lift"

definition call :: "string \<Rightarrow> val list \<Rightarrow> (string \<times> val) list \<Rightarrow> prog" where
  "call f as kw = hcall f as kw []"

definition attr :: "val \<Rightarrow> string \<Rightarrow> prog" where
  "attr obj name = call ''getattr'' [obj, VStr name] []"

definition print :: "val list \<Rightarrow> prog" where
  "print xs = call ''print'' xs []"

subsection \<open>Built-in operations of the language\<close>

fun truthy :: "val \<Rightarrow> bool" where
  "truthy VNone = False"
| "truthy (VBool b) = b"
| "truthy (VInt i) = (i \<noteq> 0)"
| "truthy (VFloat x) = (x \<noteq> 0)"
| "truthy (VStr s) = (s \<noteq> [])"
| "truthy (VTuple xs) = (xs \<noteq> [])"
| "truthy (VList xs) = (xs \<noteq> [])"
| "truthy (VDict kvs) = (kvs \<noteq> [])"
| "truthy v = True"

text \<open>
  Subtraction of numbers. A \<^verbatim>\<open>bool\<close> is an \<^verbatim>\<open>int\<close>; a difference with NaN is NaN. Floats
  are real numbers here: rounding, infinities and overflow are left out.
\<close>

fun number :: "val \<Rightarrow> val option" where
  "number (VBool b) = Some (VInt (if b then 1 else 0))"
| "number (VInt i) = Some (VInt i)"
| "number (VFloat x) = Some (VFloat x)"
| "number VNaN = Some VNaN"
| "number v = None"

fun num_sub :: "val \<Rightarrow> val \<Rightarrow> val" where
  "num_sub (VInt a) (VInt b) = VInt (a - b)"
| "num_sub (VInt a) (VFloat b) = VFloat (of_int a - b)"
| "num_sub (VFloat a) (VInt b) = VFloat (a - of_int b)"
| "num_sub (VFloat a) (VFloat b) = VFloat (a - b)"
| "num_sub a b = VNaN"

definition py_sub :: "val \<Rightarrow> val \<Rightarrow> exn + val" where
  "py_sub a b =
     (case (number a, number b) of
        (Some x, Some y) \<Rightarrow> Inr (num_sub x y)
      | _ \<Rightarrow> Inl (PyErr ''TypeError''))"

text \<open>
  \<^verbatim>\<open>len\<close>, iteration and \<^verbatim>\<open>.items()\<close> are those of the built-in containers, which is what
  the libraries answer where the notebook measures, unpacks or loops (a tuple from
  \<^verbatim>\<open>train_test_split\<close>, lists of workers and of trials, the dictionary of parameters);
  a string is the sequence of its characters; on any other value they raise, as they do
  in Python on a value without the method.
\<close>

fun py_len :: "val \<Rightarrow> exn + val" where
  "py_len (VList xs) = Inr (VInt (int (length xs)))"
| "py_len (VTuple xs) = Inr (VInt (int (length xs)))"
| "py_len (VDict kvs) = Inr (VInt (int (length kvs)))"
| "py_len (VStr s) = Inr (VInt (int (length s)))"
| "py_len v = Inl (PyErr ''TypeError'')"

fun py_iter :: "val \<Rightarrow> exn + val list" where
  "py_iter (VList xs) = Inr xs"
| "py_iter (VTuple xs) = Inr xs"
| "py_iter (VDict kvs) = Inr (map (\<lambda>kv. VStr (fst kv)) kvs)"
| "py_iter (VStr s) = Inr (map (\<lambda>c. VStr [c]) s)"
| "py_iter v = Inl (PyErr ''TypeError'')"

fun py_items :: "val \<Rightarrow> exn + val" where
  "py_items (VDict kvs) = Inr (VList (map (\<lambda>kv. VTuple [VStr (fst kv), snd kv]) kvs))"
| "py_items v = Inl (PyErr ''AttributeError'')"

definition unpack4 :: "val \<Rightarrow> (val \<Rightarrow> val \<Rightarrow> val \<Rightarrow> val \<Rightarrow> prog) \<Rightarrow> prog" where
  "unpack4 v f =
     (case py_iter v of
        Inl e \<Rightarrow> Raise e
      | Inr xs \<Rightarrow> (case xs of [a, b, c, d] \<Rightarrow> f a b c d | _ \<Rightarrow> Raise (PyErr ''ValueError'')))"

definition unpack2 :: "val \<Rightarrow> (val \<Rightarrow> val \<Rightarrow> prog) \<Rightarrow> prog" where
  "unpack2 v f =
     (case py_iter v of
        Inl e \<Rightarrow> Raise e
      | Inr xs \<Rightarrow> (case xs of [a, b] \<Rightarrow> f a b | _ \<Rightarrow> Raise (PyErr ''ValueError'')))"

text \<open>A \<^verbatim>\<open>for\<close> loop over a list, with the variable the body reassigns carried along.\<close>

primrec for_loop :: "'a list \<Rightarrow> (val \<Rightarrow> 'a \<Rightarrow> prog) \<Rightarrow> val \<Rightarrow> prog" where
  "for_loop [] body acc = Return acc"
| "for_loop (x # xs) body acc = pbind (body acc x) (\<lambda>acc'. for_loop xs body acc')"

definition for_in :: "val \<Rightarrow> (val \<Rightarrow> prog) \<Rightarrow> prog" where
  "for_in v body =
     (case py_iter v of
        Inl e \<Rightarrow> Raise e
      | Inr xs \<Rightarrow> for_loop xs (\<lambda>_ x. body x) VNone)"

text \<open>
  \<^verbatim>\<open>with cm: body\<close> for a context manager of a library: enter, run the body, and hand
  the way the body ended to \<^verbatim>\<open>__exit__\<close>, whose truthy answer swallows an exception.
  The value of the body stands for the variables it assigned.
\<close>

definition with_cm :: "val \<Rightarrow> prog \<Rightarrow> prog" where
  "with_cm cm body = pbind (call ''.__enter__'' [cm] []) (\<lambda>_.
     ptry body
       (\<lambda>v. pbind (call ''.__exit__'' [cm, VNone] []) (\<lambda>_. Return v))
       (\<lambda>e. pbind (call ''.__exit__'' [cm, VExc e] []) (\<lambda>r.
               if truthy r then Return VNone else Raise e)))"

definition lambda1 :: "(val \<Rightarrow> prog) \<Rightarrow> val list \<Rightarrow> prog" where
  "lambda1 f vs = (case vs of [a] \<Rightarrow> f a | _ \<Rightarrow> Raise (PyErr ''TypeError''))"

definition lambda2 :: "(val \<Rightarrow> val \<Rightarrow> prog) \<Rightarrow> val list \<Rightarrow> prog" where
  "lambda2 f vs = (case vs of [a, b] \<Rightarrow> f a b | _ \<Rightarrow> Raise (PyErr ''TypeError''))"

definition lambda4 :: "(val \<Rightarrow> val \<Rightarrow> val \<Rightarrow> val \<Rightarrow> prog) \<Rightarrow> val list \<Rightarrow> prog" where
  "lambda4 f vs = (case vs of [a, b, c, d] \<Rightarrow> f a b c d | _ \<Rightarrow> Raise (PyErr ''TypeError''))"

subsection \<open>Running a program against a library\<close>

type_synonym 's outcome = "(exn + val) \<times> 's"

type_synonym 's handler =
  "string \<Rightarrow> val list \<Rightarrow> (string \<times> val) list \<Rightarrow> (val list \<Rightarrow> 's \<Rightarrow> 's outcome) list \<Rightarrow> 's \<Rightarrow> 's outcome"

type_synonym entry = "string \<times> val list \<times> (string \<times> val) list \<times> (exn + val)"

primrec run :: "'s handler \<Rightarrow> prog \<Rightarrow> 's \<Rightarrow> 's outcome" where
  "run H (Return v) = (\<lambda>s. (Inr v, s))"
| "run H (Raise e) = (\<lambda>s. (Inl e, s))"
| "run H (Call n a kw cbs k) =
     (\<lambda>s. case H n a kw (map (\<lambda>cb. run H \<circ> cb) cbs) s of (r, s') \<Rightarrow> run H (k r) s')"

text \<open>The calls a program makes itself, in order, each with the answer it got.\<close>

primrec trace :: "'s handler \<Rightarrow> prog \<Rightarrow> 's \<Rightarrow> entry list" where
  "trace H (Return v) = (\<lambda>s. [])"
| "trace H (Raise e) = (\<lambda>s. [])"
| "trace H (Call n a kw cbs k) =
     (\<lambda>s. case H n a kw (map (\<lambda>cb. run H \<circ> cb) cbs) s of
             (r, s') \<Rightarrow> (n, a, kw, r) # trace H (k r) s')"

definition names :: "entry list \<Rightarrow> string list" where
  "names es = map fst es"

definition answer :: "entry \<Rightarrow> exn + val" where
  "answer en = snd (snd (snd en))"

text \<open>
  \<open>occurs f as kw p\<close>: the program \<open>p\<close> can issue the call \<open>f(as, kw)\<close>, after some
  answers of the library, itself or inside a function it handed to the library.
\<close>

inductive occurs :: "string \<Rightarrow> val list \<Rightarrow> (string \<times> val) list \<Rightarrow> prog \<Rightarrow> bool"
  for f :: string and as :: "val list" and kw :: "(string \<times> val) list" where
  here: "occurs f as kw (Call f as kw cbs k)"
| later: "occurs f as kw (k r) \<Longrightarrow> occurs f as kw (Call g bs kw' cbs k)"
| inside: "cb \<in> set cbs \<Longrightarrow> occurs f as kw (cb vs) \<Longrightarrow> occurs f as kw (Call g bs kw' cbs k)"

section \<open>The notebook\<close>

subsection \<open>Cell 3: the timing helper\<close>

text \<open>
  \<^verbatim>\<open>@contextmanager def timed(name)\<close>: the generator reads the clock, yields to the block,
  reads the clock again and prints. There is no \<^verbatim>\<open>try\<close> around the \<^verbatim>\<open>yield\<close>, so an
  exception of the block ends the generator there.
\<close>

definition timed :: "val \<Rightarrow> prog \<Rightarrow> prog" where
  "timed name body =
     pbind (call ''time.time'' [] []) (\<lambda>t0.
     pbind body (\<lambda>v.
     pbind (call ''time.time'' [] []) (\<lambda>t1.
     case py_sub t1 t0 of
       Inl e \<Rightarrow> Raise e
     | Inr d \<Rightarrow> pbind (print [VFmt ''..%-24s:  %8.4f'' [name, d]]) (\<lambda>_. Return v))))"

subsection \<open>Cells 4 and 6: the global variables\<close>

text \<open>
  The globals \<^verbatim>\<open>X\<close>, \<^verbatim>\<open>y\<close>, \<^verbatim>\<open>c\<close>, \<^verbatim>\<open>workers\<close> and \<^verbatim>\<open>n_workers\<close>, assigned once
  by cells 4 and 6 and read by the functions below (the fields carry a \<open>g\<close> so that the
  short names stay free for variables).
\<close>

record genv =
  gX :: val
  gy :: val
  gc :: val
  gworkers :: val
  gn_workers :: val

definition N_TRIALS :: int where
  "N_TRIALS = 20"

definition INPUT_FILE :: string where
  "INPUT_FILE = ''/home/hyperopt/hyperopt/data/air_par.parquet''"

subsection \<open>Cell 8: \<^verbatim>\<open>train_and_eval\<close>\<close>

definition train_and_eval :: "val \<Rightarrow> val \<Rightarrow> val \<Rightarrow> val \<Rightarrow> prog" where
  "train_and_eval X_param y_param max_depth n_estimators =
     pbind (call ''train_test_split'' [X_param, y_param] [(''random_state'', VInt 77)]) (\<lambda>split.
     unpack4 split (\<lambda>X_train X_valid y_train y_valid.
     pbind (call ''cuml.ensemble.RandomForestClassifier'' []
              [(''max_depth'', max_depth), (''n_estimators'', n_estimators)]) (\<lambda>classifier.
     pbind (call ''.fit'' [classifier, X_train, y_train] []) (\<lambda>_.
     pbind (call ''.predict'' [classifier, X_valid] []) (\<lambda>y_pred.
     pbind (call ''accuracy_score'' [y_valid, y_pred] []) (\<lambda>score.
     Return score))))))"

subsection \<open>Cell 12: \<^verbatim>\<open>objective\<close>\<close>

definition objective :: "val \<Rightarrow> val \<Rightarrow> val \<Rightarrow> prog" where
  "objective trial X_param y_param =
     pbind (call ''.suggest_int'' [trial, VStr ''max_depth'', VInt 10, VInt 15] []) (\<lambda>max_depth.
     pbind (call ''.suggest_int'' [trial, VStr ''n_estimators'', VInt 200, VInt 700] []) (\<lambda>n_estimators.
     pbind (train_and_eval X_param y_param max_depth n_estimators) (\<lambda>score.
     Return score)))"

subsection \<open>Cell 14: \<^verbatim>\<open>run_study\<close>\<close>

text \<open>
  \<open>callbacks\<close> is \<^verbatim>\<open>None\<close> or a list of functions of a study and a trial. The functions
  handed to \<^verbatim>\<open>study.optimize\<close> are the lambda around \<open>objective\<close> and then the callbacks.
\<close>

definition callbacks_arg :: "(val list \<Rightarrow> prog) list option \<Rightarrow> val" where
  "callbacks_arg callbacks =
     (case callbacks of None \<Rightarrow> VNone | Some cs \<Rightarrow> VList (map VFun [1 ..< Suc (length cs)]))"

definition callbacks_funs :: "(val list \<Rightarrow> prog) list option \<Rightarrow> (val list \<Rightarrow> prog) list" where
  "callbacks_funs callbacks = (case callbacks of None \<Rightarrow> [] | Some cs \<Rightarrow> cs)"

definition run_study :: "genv \<Rightarrow> val \<Rightarrow> string \<Rightarrow> (val list \<Rightarrow> prog) list option \<Rightarrow> prog" where
  "run_study g sampler study_name callbacks =
     pbind (timed (VStr study_name)
       (pbind (call ''optuna.create_study'' []
                 [(''sampler'', sampler),
                  (''study_name'', VStr study_name),
                  (''storage'', VStr (''sqlite:///_'' @ study_name @ ''.db'')),
                  (''direction'', VStr ''maximize''),
                  (''load_if_exists'', VBool True)]) (\<lambda>study.
        pbind (call ''parallel_backend'' [VStr ''dask'']
                 [(''n_jobs'', gn_workers g), (''client'', gc g), (''scatter'', VList [gX g, gy g])]) (\<lambda>cm.
        pbind (with_cm cm
                 (hcall ''.optimize'' [study, VFun 0]
                    [(''n_trials'', VInt N_TRIALS),
                     (''n_jobs'', gn_workers g),
                     (''callbacks'', callbacks_arg callbacks)]
                    (lambda1 (\<lambda>trial. objective trial (gX g) (gy g)) # callbacks_funs callbacks))) (\<lambda>_.
        Return study))))) (\<lambda>study.
     pbind (attr study ''trials'') (\<lambda>trials.
     pbind (lift (py_len trials)) (\<lambda>n.
     pbind (print [VStr ''Number of finished trials: '', n]) (\<lambda>_.
     pbind (print [VStr ''Best trial:'']) (\<lambda>_.
     pbind (attr study ''best_trial'') (\<lambda>trial.
     pbind (attr trial ''value'') (\<lambda>v.
     pbind (print [VStr ''  Value: '', v]) (\<lambda>_.
     pbind (print [VStr ''  Params: '']) (\<lambda>_.
     pbind (attr trial ''params'') (\<lambda>params.
     pbind (lift (py_items params)) (\<lambda>items.
     pbind (for_in items (\<lambda>item. unpack2 item (\<lambda>key value.
              print [VFmt ''    {}: {}'' [key, value]]))) (\<lambda>_.
     Return study))))))))))))"

subsection \<open>Cell 21: \<^verbatim>\<open>seq_call\<close>\<close>

definition seq_call :: "val \<Rightarrow> val \<Rightarrow> val \<Rightarrow> val \<Rightarrow> prog" where
  "seq_call Xa ya max_depth n_estimators =
     pbind (train_and_eval Xa ya max_depth n_estimators) (\<lambda>score.
     Return (VTuple [score, max_depth, n_estimators]))"

subsection \<open>Cell 26: \<^verbatim>\<open>mlflow_callback\<close>\<close>

text \<open>
  The conditional expression reads \<^verbatim>\<open>trial.value\<close> for the test and, when it is not
  \<^verbatim>\<open>None\<close>, once more for the result. The function has no \<^verbatim>\<open>return\<close>: it returns
  \<^verbatim>\<open>None\<close>.
\<close>

definition mlflow_callback :: "val \<Rightarrow> val \<Rightarrow> prog" where
  "mlflow_callback study trial =
     pbind (attr trial ''value'') (\<lambda>v.
     pbind (if v \<noteq> VNone then attr trial ''value'' else Return VNaN) (\<lambda>trial_value.
     pbind (attr study ''study_name'') (\<lambda>run_name.
     pbind (call ''mlflow.start_run'' [] [(''run_name'', run_name)]) (\<lambda>cm.
     pbind (with_cm cm
              (pbind (attr trial ''params'') (\<lambda>params.
               pbind (print [params]) (\<lambda>_.
               pbind (attr trial ''params'') (\<lambda>params'.
               pbind (call ''mlflow.log_params'' [params'] []) (\<lambda>_.
               call ''mlflow.log_metrics'' [VDict [(''accuracy'', trial_value)]] [])))))) (\<lambda>_.
     Return VNone)))))"

subsection \<open>Cell 29: \<^verbatim>\<open>objective_mg\<close>\<close>

definition objective_mg :: "genv \<Rightarrow> val \<Rightarrow> val \<Rightarrow> val \<Rightarrow> prog" where
  "objective_mg g trial Xa ya =
     pbind (call ''.suggest_int'' [trial, VStr ''max_depth'', VInt 10, VInt 15] []) (\<lambda>max_depth.
     pbind (call ''.suggest_int'' [trial, VStr ''n_estimators'', VInt 200, VInt 700] []) (\<lambda>n_estimators.
     pbind (call ''train_test_split'' [Xa, ya] [(''random_state'', VInt 77)]) (\<lambda>split.
     unpack4 split (\<lambda>X_train X_valid y_train y_valid.
     pbind (call ''import'' [VStr ''cuml.dask.ensemble'', VStr ''RandomForestClassifier''] []) (\<lambda>_.
     pbind (call ''cuml.dask.ensemble.RandomForestClassifier'' []
              [(''max_depth'', max_depth), (''n_estimators'', n_estimators)]) (\<lambda>classifier.
     pbind (call ''dask_cudf.from_cudf'' [X_train] [(''npartitions'', VInt 2)]) (\<lambda>X_train_dask.
     pbind (call ''dask_cudf.from_cudf'' [X_valid] [(''npartitions'', VInt 2)]) (\<lambda>X_valid_dask.
     pbind (call ''dask_cudf.from_cudf'' [y_train] [(''npartitions'', VInt 2)]) (\<lambda>y_train_dask.
     pbind (call ''dask_cudf.from_cudf'' [y_valid] [(''npartitions'', VInt 2)]) (\<lambda>y_valid_dask.
     pbind (call ''dask_utils.persist_across_workers''
              [gc g, VList [X_train_dask, X_valid_dask, y_train_dask, y_valid_dask]]
              [(''workers'', gworkers g)]) (\<lambda>persisted.
     unpack4 persisted (\<lambda>X_train_dask X_valid_dask y_train_dask y_valid_dask.
     pbind (call ''.fit'' [classifier, X_train_dask, y_train_dask] []) (\<lambda>_.
     pbind (call ''.predict'' [classifier, X_valid_dask] []) (\<lambda>y_pred.
     pbind (call ''.compute'' [y_pred] []) (\<lambda>y_pred_local.
     pbind (call ''accuracy_score'' [y_valid, y_pred_local] []) (\<lambda>score.
     Return score))))))))))))))))"

subsection \<open>The cells that run at top level\<close>

definition lambda0 :: "prog \<Rightarrow> val list \<Rightarrow> prog" where
  "lambda0 p vs = (case vs of [] \<Rightarrow> p | _ \<Rightarrow> Raise (PyErr ''TypeError''))"

text \<open>Cell 10: the score with the default parameters.\<close>

definition cell10 :: "genv \<Rightarrow> prog" where
  "cell10 g =
     pbind (train_and_eval (gX g) (gy g) (VInt 16) (VInt 100)) (\<lambda>score.
     print [VStr ''Score with default parameters : '', score])"

text \<open>Cell 15: the study on the Dask backend, under a performance report.\<close>

definition cell15 :: "genv \<Rightarrow> prog" where
  "cell15 g =
     pbind (call ''performance_report'' []
              [(''filename'', VStr (''optuna-joblib-dask-backend'' @ ''-dask_report.html''))]) (\<lambda>cm.
     with_cm cm
       (pbind (call ''optuna.samplers.TPESampler'' [] []) (\<lambda>sampler.
        run_study g sampler ''optuna-joblib-dask-backend'' None)))"

text \<open>Cell 16: the same study on the loky backend, written inline.\<close>

definition cell16 :: "genv \<Rightarrow> prog" where
  "cell16 g =
     timed (VStr ''optuna-joblib-loky-backend'')
       (pbind (call ''optuna.samplers.TPESampler'' [] []) (\<lambda>sampler.
        pbind (call ''optuna.create_study'' []
                 [(''sampler'', sampler),
                  (''study_name'', VStr ''optuna-joblib-loky-backend''),
                  (''storage'', VStr (''sqlite:///_'' @ ''optuna-joblib-loky-backend'' @ ''.db'')),
                  (''direction'', VStr ''maximize''),
                  (''load_if_exists'', VBool True)]) (\<lambda>study.
        pbind (call ''parallel_backend'' [VStr ''loky''] [(''n_jobs'', gn_workers g)]) (\<lambda>cm.
        pbind (with_cm cm
                 (hcall ''.optimize'' [study, VFun 0]
                    [(''n_trials'', VInt N_TRIALS), (''n_jobs'', gn_workers g)]
                    [lambda1 (\<lambda>trial. objective trial (gX g) (gy g))])) (\<lambda>_.
        Return study)))))"

text \<open>Cell 17: the study without joblib or Dask.\<close>

definition cell17 :: "genv \<Rightarrow> prog" where
  "cell17 g =
     timed (VStr ''no-dask-no-joblib'')
       (pbind (call ''optuna.samplers.TPESampler'' [] []) (\<lambda>sampler.
        pbind (call ''optuna.create_study'' []
                 [(''sampler'', sampler),
                  (''study_name'', VStr ''optuna-simple''),
                  (''storage'', VStr (''sqlite:///_'' @ ''optuna-simple'' @ ''.db'')),
                  (''direction'', VStr ''maximize''),
                  (''load_if_exists'', VBool True)]) (\<lambda>study.
        pbind (hcall ''.optimize'' [study, VFun 0]
                 [(''n_trials'', VInt N_TRIALS)]
                 [lambda1 (\<lambda>trial. objective trial (gX g) (gy g))]) (\<lambda>_.
        Return study))))"

text \<open>
  Cell 22: the sequential calls handed to joblib. The generator expression is the list of
  its \<^verbatim>\<open>N_TRIALS\<close> items, each a computation that joblib forces when it wants the item;
  \<^verbatim>\<open>seq_call\<close> goes to \<^verbatim>\<open>delayed\<close> as a function of its four arguments.
\<close>

definition delayed_seq_call :: "genv \<Rightarrow> val \<Rightarrow> val \<Rightarrow> int \<Rightarrow> prog" where
  "delayed_seq_call g params_max_depth params_n_estimators i =
     pbind (hcall ''delayed'' [VFun 0] [] [lambda4 seq_call]) (\<lambda>d.
     pbind (call ''.__getitem__'' [params_max_depth, VInt i] []) (\<lambda>max_depth.
     pbind (call ''.__getitem__'' [params_n_estimators, VInt i] []) (\<lambda>n_estimators.
     call ''.__call__'' [d, gX g, gy g]
       [(''max_depth'', max_depth), (''n_estimators'', n_estimators)])))"

definition cell22 :: "genv \<Rightarrow> val \<Rightarrow> val \<Rightarrow> prog" where
  "cell22 g params_max_depth params_n_estimators =
     timed (VStr ''joblib-dask-backend'')
       (pbind (call ''parallel_backend'' [VStr ''dask'']
                 [(''n_jobs'', gn_workers g), (''client'', gc g), (''scatter'', VList [gX g, gy g])]) (\<lambda>cm.
        pbind (with_cm cm
                 (pbind (call ''Parallel'' [] []) (\<lambda>parallel.
                  hcall ''.__call__'' [parallel, VList (map VFun [0 ..< nat N_TRIALS])] []
                    (map (\<lambda>i. lambda0 (delayed_seq_call g params_max_depth params_n_estimators i))
                       [0 .. N_TRIALS - 1])))) (\<lambda>results.
        pbind (print [results]) (\<lambda>_.
        Return results))))"

text \<open>Cell 24: the same calls in a plain loop.\<close>

definition cell24 :: "genv \<Rightarrow> val \<Rightarrow> val \<Rightarrow> val \<Rightarrow> prog" where
  "cell24 g params_max_depth params_n_estimators results =
     timed (VStr ''sequential-calls'')
       (pbind (for_loop [0 .. N_TRIALS - 1]
                 (\<lambda>_ i.
                    pbind (call ''.__getitem__'' [params_max_depth, VInt i] []) (\<lambda>max_depth.
                    pbind (call ''.__getitem__'' [params_n_estimators, VInt i] []) (\<lambda>n_estimators.
                    seq_call (gX g) (gy g) max_depth n_estimators)))
                 results) (\<lambda>results'.
        pbind (print [results']) (\<lambda>_.
        Return results')))"

text \<open>Cell 27: the study with the MLflow callback.\<close>

definition cell27 :: "genv \<Rightarrow> prog" where
  "cell27 g =
     pbind (call ''optuna.samplers.TPESampler'' [] []) (\<lambda>sampler.
     run_study g sampler ''optuna-joblib-dask-backend-mlflow-callback''
       (Some [lambda2 mlflow_callback]))"

text \<open>Cell 30: the study with the multi-GPU objective.\<close>

definition cell30 :: "genv \<Rightarrow> prog" where
  "cell30 g =
     pbind (call ''performance_report'' []
              [(''filename'', VStr (''optuna-mnmg-joblib---'' @ ''.html''))]) (\<lambda>report.
     with_cm report
       (timed (VStr ''optuna-mnmg-joblib---'')
          (pbind (call ''optuna.samplers.TPESampler'' [] []) (\<lambda>sampler.
           pbind (call ''optuna.create_study'' []
                    [(''sampler'', sampler),
                     (''study_name'', VStr ''optuna-mnmg-joblib---''),
                     (''storage'', VStr (''sqlite:///_'' @ ''optuna-mnmg-joblib---'' @ ''.db'')),
                     (''direction'', VStr ''maximize''),
                     (''load_if_exists'', VBool True)]) (\<lambda>study.
           pbind (call ''parallel_backend'' [VStr ''dask'']
                    [(''n_jobs'', gn_workers g), (''client'', gc g),
                     (''scatter'', VList [gX g, gy g])]) (\<lambda>cm.
           pbind (with_cm cm
                    (hcall ''.optimize'' [study, VFun 0]
                       [(''n_trials'', VInt N_TRIALS)]
                       [lambda1 (\<lambda>trial. objective_mg g trial (gX g) (gy g))])) (\<lambda>_.
           Return study)))))))"

text \<open>
  The cells after the globals are set, in the order of the notebook. Cell 14 evaluates the
  default sampler of \<^verbatim>\<open>run_study\<close> when it defines the function; cell 19 reads the
  parameters that the first study tried.
\<close>

definition cells :: "genv \<Rightarrow> prog" where
  "cells g =
     pbind (cell10 g) (\<lambda>_.
     pbind (call ''optuna.samplers.TPESampler'' [] []) (\<lambda>default_sampler.
     pbind (cell15 g) (\<lambda>study_tpe.
     pbind (cell16 g) (\<lambda>_.
     pbind (cell17 g) (\<lambda>_.
     pbind (call ''.trials_dataframe'' [study_tpe] []) (\<lambda>df.
     pbind (call ''.__getitem__'' [df, VStr ''params_max_depth''] []) (\<lambda>params_max_depth.
     pbind (call ''.__getitem__'' [df, VStr ''params_n_estimators''] []) (\<lambda>params_n_estimators.
     pbind (cell22 g params_max_depth params_n_estimators) (\<lambda>results.
     pbind (cell24 g params_max_depth params_n_estimators results) (\<lambda>_.
     pbind (cell27 g) (\<lambda>_.
     cell30 g)))))))))))"

text \<open>
  Cell 4 starts the cluster and asks its client once for the workers; cell 6 reads the
  table and takes the features and the labels from it. Each hands the globals it sets to
  the cells that follow.
\<close>

definition cell4 :: "(val \<Rightarrow> val \<Rightarrow> val \<Rightarrow> prog) \<Rightarrow> prog" where
  "cell4 following =
     pbind (call ''LocalCUDACluster'' []
              [(''threads_per_worker'', VInt 1), (''ip'', VStr []),
               (''dashboard_address'', VStr ''8002'')]) (\<lambda>cluster.
     pbind (call ''Client'' [cluster] []) (\<lambda>client.
     pbind (call ''.has_what'' [client] []) (\<lambda>has_what.
     pbind (call ''.keys'' [has_what] []) (\<lambda>worker_keys.
     pbind (lift (py_len worker_keys)) (\<lambda>count.
     following client worker_keys count)))))"

definition cell6 :: "(val \<Rightarrow> val \<Rightarrow> prog) \<Rightarrow> prog" where
  "cell6 following =
     pbind (call ''cudf.read_parquet'' [VStr INPUT_FILE] []) (\<lambda>df.
     pbind (call ''.drop'' [df, VList [VStr ''ArrDelayBinary'']] [(''axis'', VInt 1)]) (\<lambda>features.
     pbind (call ''.__getitem__'' [df, VStr ''ArrDelayBinary''] []) (\<lambda>column.
     pbind (call ''.astype'' [column, VStr ''int32''] []) (\<lambda>labels.
     following features labels))))"

definition notebook :: prog where
  "notebook =
     cell4 (\<lambda>client worker_keys count.
     cell6 (\<lambda>features labels.
     cells \<lparr>gX = features, gy = labels, gc = client, gworkers = worker_keys,
            gn_workers = count\<rparr>))"

section \<open>What the claims say about programs and about libraries\<close>

text \<open>Every call that a program can issue satisfies \<open>P\<close>.\<close>

definition all_calls :: "(string \<Rightarrow> val list \<Rightarrow> (string \<times> val) list \<Rightarrow> bool) \<Rightarrow> prog \<Rightarrow> bool" where
  "all_calls P p \<longleftrightarrow> (\<forall>f as kw. occurs f as kw p \<longrightarrow> P f as kw)"

text \<open>
  The contract of \<^verbatim>\<open>trial.suggest_int(name, low, high)\<close>: an answer is an integer of the
  inclusive range.
\<close>

definition suggest_in_range :: "'s handler \<Rightarrow> bool" where
  "suggest_in_range H \<longleftrightarrow>
     (\<forall>t nm lo hi s v s'.
        H ''.suggest_int'' [t, VStr nm, VInt lo, VInt hi] [] [] s = (Inr v, s') \<longrightarrow>
        (\<exists>i. v = VInt i \<and> lo \<le> i \<and> i \<le> hi))"

text \<open>
  The context managers of the libraries do not swallow exceptions: handed an exception,
  \<^verbatim>\<open>__exit__\<close> answers with a false value.
\<close>

definition exits_decline :: "'s handler \<Rightarrow> bool" where
  "exits_decline H \<longleftrightarrow>
     (\<forall>cm e s. \<exists>r s'. H ''.__exit__'' [cm, VExc e] [] [] s = (Inr r, s') \<and> \<not> truthy r)"

text \<open>
  A program lets exceptions through: whenever one of the calls it made was answered by an
  exception, that exception is its own result.
\<close>

definition uncaught :: "'s handler \<Rightarrow> prog \<Rightarrow> bool" where
  "uncaught H p \<longleftrightarrow>
     (\<forall>s. \<forall>en\<in>set (trace H p s). \<forall>e. answer en = Inl e \<longrightarrow> fst (run H p s) = Inl e)"

text \<open>
  A step of a straight-line function: the library function that it calls, and the
  arguments of the call, built from the answers to the steps before it (in order).
  \<open>straight_from steps prev es\<close>: the calls \<open>es\<close> are those of \<open>steps\<close>, one after the other
  from the first, each with the arguments that the answers so far give it (\<open>prev\<close>, then
  the answers in \<open>es\<close>), and no call follows one that raised.
\<close>

type_synonym step = "string \<times> (val list \<Rightarrow> val list \<times> (string \<times> val) list)"

fun straight_from :: "step list \<Rightarrow> val list \<Rightarrow> entry list \<Rightarrow> bool" where
  "straight_from steps prev [] = True"
| "straight_from [] prev (en # es) = False"
| "straight_from (st # steps) prev (en # es) =
     (fst en = fst st \<and> (fst (snd en), fst (snd (snd en))) = snd st prev \<and>
      (case answer en of
         Inl e \<Rightarrow> es = []
       | Inr v \<Rightarrow> straight_from steps (prev @ [v]) es))"

text \<open>
  A program is straight-line, with the steps \<open>steps\<close>: whatever the library answers, its
  calls are those of \<open>steps\<close> from the first on, and a run that returns a value has made
  all of them and none of them raised.
\<close>

definition answered :: "entry list \<Rightarrow> bool" where
  "answered es \<longleftrightarrow> (\<forall>en\<in>set es. \<exists>v. answer en = Inr v)"

definition straight_line :: "'s handler \<Rightarrow> val list \<Rightarrow> prog \<Rightarrow> step list \<Rightarrow> bool" where
  "straight_line H prev p steps \<longleftrightarrow>
     (\<forall>s. straight_from steps prev (trace H p s) \<and>
          (\<forall>v. fst (run H p s) = Inr v \<longrightarrow>
             length (trace H p s) = length steps \<and> answered (trace H p s)))"

text \<open>
  What the steps take from an earlier answer: the \<open>i\<close>-th of the values that unpacking it
  gives, and the value of an operation of the language on it.
\<close>

definition item :: "val \<Rightarrow> nat \<Rightarrow> val" where
  "item v i = (case py_iter v of Inl e \<Rightarrow> VNone | Inr xs \<Rightarrow> if i < length xs then xs ! i else VNone)"


text \<open>
  \<open>returns H p s w es t\<close>: from the state \<open>s\<close> the program returns \<open>w\<close>, having made the
  calls \<open>es\<close>, none of which raised, and leaves the state \<open>t\<close>.
\<close>

definition returns :: "'s handler \<Rightarrow> prog \<Rightarrow> 's \<Rightarrow> val \<Rightarrow> entry list \<Rightarrow> 's \<Rightarrow> bool" where
  "returns H p s w es t \<longleftrightarrow> run H p s = (Inr w, t) \<and> trace H p s = es \<and> answered es"

text \<open>With a fixed seed, the answer of \<^verbatim>\<open>train_test_split\<close> is a function of its arguments.\<close>

definition split_deterministic :: "'s handler \<Rightarrow> bool" where
  "split_deterministic H \<longleftrightarrow>
     (\<forall>as kw s s'. fst (H ''train_test_split'' as kw [] s) = fst (H ''train_test_split'' as kw [] s'))"

definition splits :: "entry list \<Rightarrow> entry list" where
  "splits es = filter (\<lambda>en. fst en = ''train_test_split'') es"

text \<open>
  The library functions that the functions of the notebook call. \<open>keeps fs obs H\<close>: none
  of the functions \<open>fs\<close> changes what \<open>obs\<close> sees of the state of the library (the contents
  of the frames, say), provided the functions handed to it do not.
\<close>

definition library_calls :: "string list" where
  "library_calls =
     [''train_test_split'', ''cuml.ensemble.RandomForestClassifier'', ''.fit'', ''.predict'',
      ''accuracy_score'', ''.suggest_int'', ''import'',
      ''cuml.dask.ensemble.RandomForestClassifier'', ''dask_cudf.from_cudf'',
      ''dask_utils.persist_across_workers'', ''.compute'', ''time.time'', ''print'',
      ''optuna.create_study'', ''parallel_backend'', ''.__enter__'', ''.__exit__'', ''.optimize'',
      ''getattr'', ''mlflow.start_run'', ''mlflow.log_params'', ''mlflow.log_metrics'']"

definition keeps :: "string list \<Rightarrow> ('s \<Rightarrow> 'o) \<Rightarrow> 's handler \<Rightarrow> bool" where
  "keeps fs obs H \<longleftrightarrow>
     (\<forall>f as kw cbs s. f \<in> set fs \<longrightarrow>
        (\<forall>cb\<in>set cbs. \<forall>vs t. obs (snd (cb vs t)) = obs t) \<longrightarrow>
        obs (snd (H f as kw cbs s)) = obs s)"

text \<open>
  What reading an attribute of a library object answers in a state. The contract of
  \<^verbatim>\<open>study.best_trial\<close>: whatever the program, for a study that \<^verbatim>\<open>optuna.create_study\<close>
  answered when asked for the direction \<open>d\<close>, the best trial is one of the trials that the
  study records, it has a value, and no recorded trial has a better one in the direction
  \<open>d\<close>: a greater one for \<^verbatim>\<open>maximize\<close>, a smaller one otherwise.
\<close>

definition attribute :: "'s handler \<Rightarrow> 's \<Rightarrow> val \<Rightarrow> string \<Rightarrow> exn + val" where
  "attribute H s obj name = fst (H ''getattr'' [obj, VStr name] [] [] s)"

definition best_in_direction :: "'s handler \<Rightarrow> bool" where
  "best_in_direction H \<longleftrightarrow>
     (\<forall>p s kw study d bt.
        (''optuna.create_study'', [], kw, Inr study) \<in> set (trace H p s) \<longrightarrow>
        map_of kw ''direction'' = Some (VStr d) \<longrightarrow>
        attribute H (snd (run H p s)) study ''best_trial'' = Inr bt \<longrightarrow>
        (\<exists>ts b. attribute H (snd (run H p s)) study ''trials'' = Inr (VList ts) \<and> bt \<in> set ts \<and>
                attribute H (snd (run H p s)) bt ''value'' = Inr (VFloat b) \<and>
                (\<forall>t\<in>set ts. \<forall>a. attribute H (snd (run H p s)) t ''value'' = Inr (VFloat a) \<longrightarrow>
                   (if d = ''maximize'' then a \<le> b else b \<le> a))))"

section \<open>A small library to run the programs on\<close>

text \<open>
  A handler with a clock and a store of frames. It answers the calls of the notebook with
  fixed objects; \<^verbatim>\<open>study.optimize\<close> runs one trial; splitting the frame \<open>VRef 0\<close> raises.
  \<^verbatim>\<open>optuna.create_study\<close> answers the study \<open>VRef 40\<close> for the direction \<^verbatim>\<open>maximize\<close> and
  the study \<open>VRef 43\<close> for \<^verbatim>\<open>minimize\<close> (the default), and raises for any other direction.
  Both studies record the trials \<open>VRef 50\<close>, without a value, \<open>VRef 51\<close> with the value
  \<open>21 / 25\<close> and \<open>VRef 52\<close> with the value \<open>3 / 5\<close>.
\<close>

record lib_state =
  clock :: nat
  frames :: "(nat \<times> int list) list"

definition sample_getattr :: "val list \<Rightarrow> exn + val" where
  "sample_getattr as =
     (if as = [VRef 40, VStr ''trials''] then Inr (VList [VRef 50, VRef 51, VRef 52])
      else if as = [VRef 40, VStr ''best_trial''] then Inr (VRef 51)
      else if as = [VRef 40, VStr ''study_name''] then Inr (VStr ''demo'')
      else if as = [VRef 43, VStr ''trials''] then Inr (VList [VRef 50, VRef 51, VRef 52])
      else if as = [VRef 43, VStr ''best_trial''] then Inr (VRef 52)
      else if as = [VRef 43, VStr ''study_name''] then Inr (VStr ''demo'')
      else if as = [VRef 50, VStr ''value''] then Inr VNone
      else if as = [VRef 51, VStr ''value''] then Inr (VFloat (21 / 25))
      else if as = [VRef 52, VStr ''value''] then Inr (VFloat (3 / 5))
      else if as = [VRef 50, VStr ''params''] then
        Inr (VDict [(''max_depth'', VInt 10), (''n_estimators'', VInt 200)])
      else if as = [VRef 51, VStr ''params''] then
        Inr (VDict [(''max_depth'', VInt 15), (''n_estimators'', VInt 559)])
      else if as = [VRef 52, VStr ''params''] then
        Inr (VDict [(''max_depth'', VInt 12), (''n_estimators'', VInt 300)])
      else Inl (PyErr ''AttributeError''))"

definition sample_create_study :: "(string \<times> val) list \<Rightarrow> exn + val" where
  "sample_create_study kw =
     (case map_of kw ''direction'' of
        None \<Rightarrow> Inr (VRef 43)
      | Some d \<Rightarrow>
          if d = VStr ''maximize'' then Inr (VRef 40)
          else if d = VStr ''minimize'' then Inr (VRef 43)
          else Inl (PyErr ''ValueError''))"

definition sample_answer :: "string \<Rightarrow> val list \<Rightarrow> exn + val" where
  "sample_answer f as =
     (if f = ''.suggest_int'' then
        (case as of
           [t, VStr nm, VInt lo, VInt hi] \<Rightarrow>
             (if lo \<le> hi then Inr (VInt hi) else Inl (PyErr ''ValueError''))
         | _ \<Rightarrow> Inl (PyErr ''TypeError''))
      else if f = ''train_test_split'' then
        (case as of
           [VRef a, VRef b] \<Rightarrow>
             (if a = 0 then Inl (PyErr ''ValueError'')
              else Inr (VTuple [VRef 10, VRef 11, VRef 12, VRef 13]))
         | _ \<Rightarrow> Inl (PyErr ''TypeError''))
      else if f = ''cuml.ensemble.RandomForestClassifier'' then Inr (VRef 20)
      else if f = ''cuml.dask.ensemble.RandomForestClassifier'' then Inr (VRef 21)
      else if f = ''.predict'' then Inr (VRef 30)
      else if f = ''accuracy_score'' then Inr (VFloat (21 / 25))
      else if f = ''parallel_backend'' then Inr (VRef 41)
      else if f = ''mlflow.start_run'' then Inr (VRef 42)
      else if f = ''getattr'' then sample_getattr as
      else if f = ''dask_cudf.from_cudf'' then Inr (VRef 60)
      else if f = ''dask_utils.persist_across_workers'' then
        (case as of [cl, VList xs] \<Rightarrow> Inr (VList xs) | _ \<Rightarrow> Inl (PyErr ''TypeError''))
      else if f = ''.compute'' then Inr (VRef 61)
      else if f = ''.keys'' then Inr (VList [VStr ''gpu0'', VStr ''gpu1''])
      else if f = ''cudf.read_parquet'' then Inr (VRef 4)
      else if f = ''.drop'' then Inr (VRef 5)
      else if f = ''.astype'' then Inr (VRef 6)
      else if f = ''Client'' then Inr (VRef 7)
      else Inr VNone)"

definition sample_lib :: "lib_state handler" where
  "sample_lib f as kw cbs s =
     (if f = ''time.time'' then (Inr (VFloat (real (clock s))), s\<lparr>clock := Suc (clock s)\<rparr>)
      else if f = ''.optimize'' then
        (case cbs of
           cb # _ \<Rightarrow>
             (case cb [VRef 51] s of (Inl e, s') \<Rightarrow> (Inl e, s') | (Inr v, s') \<Rightarrow> (Inr VNone, s'))
         | [] \<Rightarrow> (Inl (PyErr ''TypeError''), s))
      else if f = ''.__setitem__'' then
        (case as of
           [VRef r, VInt i] \<Rightarrow> (Inr VNone, s\<lparr>frames := (r, [i]) # frames s\<rparr>)
         | _ \<Rightarrow> (Inl (PyErr ''TypeError''), s))
      else if f = ''optuna.create_study'' then (sample_create_study kw, s)
      else (sample_answer f as, s))"


definition s0 :: lib_state where
  "s0 = \<lparr>clock = 3, frames = [(5, [7, 8]), (6, [0, 1])]\<rparr>"

definition g0 :: genv where
  "g0 = \<lparr>gX = VRef 5, gy = VRef 6, gc = VRef 7,
         gworkers = VList [VStr ''gpu0'', VStr ''gpu1''], gn_workers = VInt 2\<rparr>"

section \<open>Running sequences of calls\<close>

lemma run_pbind:
  "run H (pbind m f) s =
     (case run H m s of (Inl e, s') \<Rightarrow> (Inl e, s') | (Inr v, s') \<Rightarrow> run H (f v) s')"
  by (induction m arbitrary: s) (auto split: prod.splits sum.splits)

lemma trace_pbind:
  "trace H (pbind m f) s =
     trace H m s @ (case run H m s of (Inl e, s') \<Rightarrow> [] | (Inr v, s') \<Rightarrow> trace H (f v) s')"
  by (induction m arbitrary: s) (auto split: prod.splits sum.splits)

lemma run_ptry:
  "run H (ptry m f h) s =
     (case run H m s of (Inl e, s') \<Rightarrow> run H (h e) s' | (Inr v, s') \<Rightarrow> run H (f v) s')"
  by (induction m arbitrary: s) (auto split: prod.splits sum.splits)

lemma trace_ptry:
  "trace H (ptry m f h) s =
     trace H m s @
     (case run H m s of (Inl e, s') \<Rightarrow> trace H (h e) s' | (Inr v, s') \<Rightarrow> trace H (f v) s')"
  by (induction m arbitrary: s) (auto split: prod.splits sum.splits)

lemma run_lift [simp]: "run H (lift r) s = (r, s)"
  by (cases r) (simp_all add: lift_def)

lemma trace_lift [simp]: "trace H (lift r) s = []"
  by (cases r) (simp_all add: lift_def)

lemma run_hcall: "run H (hcall f as kw cbs) s = H f as kw (map (\<lambda>cb. run H \<circ> cb) cbs) s"
  by (simp add: hcall_def split: prod.splits)

lemma trace_hcall:
  "trace H (hcall f as kw cbs) s = [(f, as, kw, fst (H f as kw (map (\<lambda>cb. run H \<circ> cb) cbs) s))]"
  by (simp add: hcall_def split: prod.splits)

lemma run_call: "run H (call f as kw) s = H f as kw [] s"
  by (simp add: call_def run_hcall)

lemma trace_call: "trace H (call f as kw) s = [(f, as, kw, fst (H f as kw [] s))]"
  by (simp add: call_def trace_hcall)

lemma trace_occurs: "(f, as, kw, r) \<in> set (trace H p s) \<Longrightarrow> occurs f as kw p"
proof (induction p arbitrary: s)
  case (Call n a kw' cbs k)
  obtain r' s' where h: "H n a kw' (map (\<lambda>cb. run H \<circ> cb) cbs) s = (r', s')"
    by (cases "H n a kw' (map (\<lambda>cb. run H \<circ> cb) cbs) s")
  with Call.prems have "(f, as, kw, r) = (n, a, kw', r') \<or> (f, as, kw, r) \<in> set (trace H (k r') s')"
    by simp
  then show ?case
  proof
    assume "(f, as, kw, r) = (n, a, kw', r')"
    then show ?thesis by (auto intro: occurs.here)
  next
    assume "(f, as, kw, r) \<in> set (trace H (k r') s')"
    then have "occurs f as kw (k r')" by (rule Call.IH(2) [OF rangeI])
    then show ?thesis by (rule occurs.later)
  qed
qed simp_all

section \<open>The calls a program can issue\<close>

inductive_simps occurs_Return [simp]: "occurs f as kw (Return v)"
inductive_simps occurs_Raise [simp]: "occurs f as kw (Raise e)"
inductive_simps occurs_Call: "occurs f as kw (Call g bs kw' cbs k)"

lemma occurs_lift [simp]: "\<not> occurs f as kw (lift r)"
  by (cases r) (simp_all add: lift_def)

lemma occurs_pbindD:
  "occurs f as kw (pbind m g) \<Longrightarrow> occurs f as kw m \<or> (\<exists>v. occurs f as kw (g v))"
proof (induction m)
  case (Call n a kw' cbs k)
  from Call.prems have
    "(f = n \<and> as = a \<and> kw = kw') \<or> (\<exists>r. occurs f as kw (pbind (k r) g))
       \<or> (\<exists>cb\<in>set cbs. \<exists>vs. occurs f as kw (cb vs))"
    by (auto simp: occurs_Call)
  then show ?case
  proof (elim disjE exE bexE conjE)
    assume "f = n" "as = a" "kw = kw'"
    then show ?thesis by (auto intro: occurs.here)
  next
    fix r assume "occurs f as kw (pbind (k r) g)"
    with Call.IH(2) [of "k r"] show ?thesis by (auto intro: occurs.later)
  next
    fix cb vs assume "cb \<in> set cbs" "occurs f as kw (cb vs)"
    then show ?thesis by (auto intro: occurs.inside)
  qed
qed auto

lemma occurs_ptryD:
  "occurs f as kw (ptry m g h) \<Longrightarrow>
     occurs f as kw m \<or> (\<exists>v. occurs f as kw (g v)) \<or> (\<exists>e. occurs f as kw (h e))"
proof (induction m)
  case (Call n a kw' cbs k)
  from Call.prems have
    "(f = n \<and> as = a \<and> kw = kw') \<or> (\<exists>r. occurs f as kw (ptry (k r) g h))
       \<or> (\<exists>cb\<in>set cbs. \<exists>vs. occurs f as kw (cb vs))"
    by (auto simp: occurs_Call)
  then show ?case
  proof (elim disjE exE bexE conjE)
    assume "f = n" "as = a" "kw = kw'"
    then show ?thesis by (auto intro: occurs.here)
  next
    fix r assume "occurs f as kw (ptry (k r) g h)"
    with Call.IH(2) [of "k r"] show ?thesis by (auto intro: occurs.later)
  next
    fix cb vs assume "cb \<in> set cbs" "occurs f as kw (cb vs)"
    then show ?thesis by (auto intro: occurs.inside)
  qed
qed auto

lemma occurs_hcall:
  "occurs f as kw (hcall n a kw' cbs) \<longleftrightarrow>
     (f = n \<and> as = a \<and> kw = kw') \<or> (\<exists>cb\<in>set cbs. \<exists>vs. occurs f as kw (cb vs))"
  by (auto simp: hcall_def occurs_Call)

lemma occurs_call: "occurs f as kw (call n a kw') \<longleftrightarrow> f = n \<and> as = a \<and> kw = kw'"
  by (simp add: call_def occurs_hcall)

lemma all_calls_Return [simp]: "all_calls P (Return v)"
  by (simp add: all_calls_def)

lemma all_calls_Raise [simp]: "all_calls P (Raise e)"
  by (simp add: all_calls_def)

lemma all_calls_lift [simp]: "all_calls P (lift r)"
  by (simp add: all_calls_def)

lemma all_calls_pbind:
  "all_calls P m \<Longrightarrow> (\<And>v. all_calls P (g v)) \<Longrightarrow> all_calls P (pbind m g)"
  unfolding all_calls_def by (blast dest: occurs_pbindD)

lemma all_calls_ptry:
  "all_calls P m \<Longrightarrow> (\<And>v. all_calls P (g v)) \<Longrightarrow> (\<And>e. all_calls P (h e)) \<Longrightarrow>
   all_calls P (ptry m g h)"
  unfolding all_calls_def by (blast dest: occurs_ptryD)

lemma all_calls_call [simp]: "all_calls P (call f as kw) \<longleftrightarrow> P f as kw"
  by (auto simp: all_calls_def occurs_call)

lemma all_calls_hcall:
  "P f as kw \<Longrightarrow> list_all (\<lambda>cb. \<forall>vs. all_calls P (cb vs)) cbs \<Longrightarrow> all_calls P (hcall f as kw cbs)"
  by (auto simp: all_calls_def occurs_hcall list_all_iff)

lemma all_calls_attr [simp]: "all_calls P (attr obj nm) \<longleftrightarrow> P ''getattr'' [obj, VStr nm] []"
  by (simp add: attr_def)

lemma all_calls_print [simp]: "all_calls P (print xs) \<longleftrightarrow> P ''print'' xs []"
  by (simp add: print_def)

lemma all_calls_unpack4:
  "(\<And>a b c d. all_calls P (g a b c d)) \<Longrightarrow> all_calls P (unpack4 v g)"
  unfolding unpack4_def by (auto split: sum.splits list.splits)

lemma all_calls_unpack2:
  "(\<And>a b. all_calls P (g a b)) \<Longrightarrow> all_calls P (unpack2 v g)"
  unfolding unpack2_def by (auto split: sum.splits list.splits)

lemma all_calls_for_loop:
  "(\<And>a x. x \<in> set xs \<Longrightarrow> all_calls P (body a x)) \<Longrightarrow> all_calls P (for_loop xs body acc)"
  by (induction xs arbitrary: acc) (auto intro!: all_calls_pbind)

lemma all_calls_for_in:
  "(\<And>x. all_calls P (body x)) \<Longrightarrow> all_calls P (for_in v body)"
  unfolding for_in_def by (auto split: sum.splits intro!: all_calls_for_loop)

lemma all_calls_with_cm:
  "P ''.__enter__'' [cm] [] \<Longrightarrow> (\<And>x. P ''.__exit__'' [cm, x] []) \<Longrightarrow> all_calls P body \<Longrightarrow>
   all_calls P (with_cm cm body)"
  unfolding with_cm_def
  by (intro all_calls_pbind all_calls_ptry) simp_all

lemma all_calls_timed:
  "P ''time.time'' [] [] \<Longrightarrow> (\<And>d. P ''print'' [VFmt ''..%-24s:  %8.4f'' [name, d]] []) \<Longrightarrow>
   all_calls P body \<Longrightarrow> all_calls P (timed name body)"
  unfolding timed_def
  by (intro all_calls_pbind) (auto split: sum.splits intro!: all_calls_pbind)

lemma all_calls_lambda0: "all_calls P p \<Longrightarrow> all_calls P (lambda0 p vs)"
  by (simp add: lambda0_def split: list.splits)

lemma all_calls_lambda1: "(\<And>a. all_calls P (g a)) \<Longrightarrow> all_calls P (lambda1 g vs)"
  by (simp add: lambda1_def split: list.splits)

lemma all_calls_lambda2: "(\<And>a b. all_calls P (g a b)) \<Longrightarrow> all_calls P (lambda2 g vs)"
  by (simp add: lambda2_def split: list.splits)

lemma all_calls_lambda4: "(\<And>a b c d. all_calls P (g a b c d)) \<Longrightarrow> all_calls P (lambda4 g vs)"
  by (simp add: lambda4_def split: list.splits)

lemma all_calls_if: "all_calls P a \<Longrightarrow> all_calls P b \<Longrightarrow> all_calls P (if c then a else b)"
  by simp

lemmas all_calls_intros = all_calls_pbind all_calls_hcall
  all_calls_unpack4 all_calls_unpack2 all_calls_for_loop all_calls_for_in all_calls_with_cm
  all_calls_timed all_calls_lambda0 all_calls_lambda1 all_calls_lambda2 all_calls_lambda4
  all_calls_if

text \<open>What each function of the notebook needs for all its calls to satisfy \<open>P\<close>.\<close>

lemma all_calls_train_and_eval:
  assumes "P ''train_test_split'' [X_param, y_param] [(''random_state'', VInt 77)]"
    and "P ''cuml.ensemble.RandomForestClassifier'' []
           [(''max_depth'', max_depth), (''n_estimators'', n_estimators)]"
    and "\<And>a b c. P ''.fit'' [a, b, c] []"
    and "\<And>a b. P ''.predict'' [a, b] []"
    and "\<And>a b. P ''accuracy_score'' [a, b] []"
  shows "all_calls P (train_and_eval X_param y_param max_depth n_estimators)"
  unfolding train_and_eval_def
  by (intro all_calls_intros) (simp_all add: assms)

lemma all_calls_objective:
  assumes "\<And>nm lo hi. P ''.suggest_int'' [trial, VStr nm, VInt lo, VInt hi] []"
    and "P ''train_test_split'' [X_param, y_param] [(''random_state'', VInt 77)]"
    and "\<And>a b. P ''cuml.ensemble.RandomForestClassifier'' [] [(''max_depth'', a), (''n_estimators'', b)]"
    and "\<And>a b c. P ''.fit'' [a, b, c] []"
    and "\<And>a b. P ''.predict'' [a, b] []"
    and "\<And>a b. P ''accuracy_score'' [a, b] []"
  shows "all_calls P (objective trial X_param y_param)"
  unfolding objective_def
  by (intro all_calls_intros all_calls_train_and_eval) (simp_all add: assms)

lemma all_calls_seq_call:
  assumes "P ''train_test_split'' [Xa, ya] [(''random_state'', VInt 77)]"
    and "P ''cuml.ensemble.RandomForestClassifier'' []
           [(''max_depth'', max_depth), (''n_estimators'', n_estimators)]"
    and "\<And>a b c. P ''.fit'' [a, b, c] []"
    and "\<And>a b. P ''.predict'' [a, b] []"
    and "\<And>a b. P ''accuracy_score'' [a, b] []"
  shows "all_calls P (seq_call Xa ya max_depth n_estimators)"
  unfolding seq_call_def
  by (intro all_calls_intros all_calls_train_and_eval) (simp_all add: assms)

lemma all_calls_objective_mg:
  assumes "\<And>nm lo hi. P ''.suggest_int'' [trial, VStr nm, VInt lo, VInt hi] []"
    and "P ''train_test_split'' [Xa, ya] [(''random_state'', VInt 77)]"
    and "P ''import'' [VStr ''cuml.dask.ensemble'', VStr ''RandomForestClassifier''] []"
    and "\<And>a b. P ''cuml.dask.ensemble.RandomForestClassifier'' []
                  [(''max_depth'', a), (''n_estimators'', b)]"
    and "\<And>a. P ''dask_cudf.from_cudf'' [a] [(''npartitions'', VInt 2)]"
    and "\<And>a. P ''dask_utils.persist_across_workers'' [gc g, VList a] [(''workers'', gworkers g)]"
    and "\<And>a b c. P ''.fit'' [a, b, c] []"
    and "\<And>a b. P ''.predict'' [a, b] []"
    and "\<And>a. P ''.compute'' [a] []"
    and "\<And>a b. P ''accuracy_score'' [a, b] []"
  shows "all_calls P (objective_mg g trial Xa ya)"
  unfolding objective_mg_def
  by (intro all_calls_intros) (simp_all add: assms)

lemma all_calls_mlflow_callback:
  assumes "\<And>a b. P ''getattr'' [a, VStr b] []"
    and "\<And>a. P ''mlflow.start_run'' [] [(''run_name'', a)]"
    and "\<And>a. P ''.__enter__'' [a] []"
    and "\<And>a b. P ''.__exit__'' [a, b] []"
    and "\<And>a. P ''print'' a []"
    and "\<And>a. P ''mlflow.log_params'' [a] []"
    and "\<And>a. P ''mlflow.log_metrics'' [VDict [(''accuracy'', a)]] []"
  shows "all_calls P (mlflow_callback study trial)"
  unfolding mlflow_callback_def
  by (intro all_calls_intros) (simp_all add: assms)

lemma all_calls_run_study:
  assumes "P ''optuna.create_study'' []
             [(''sampler'', sampler), (''study_name'', VStr study_name),
              (''storage'', VStr (''sqlite:///_'' @ study_name @ ''.db'')),
              (''direction'', VStr ''maximize''), (''load_if_exists'', VBool True)]"
    and "P ''parallel_backend'' [VStr ''dask'']
             [(''n_jobs'', gn_workers g), (''client'', gc g), (''scatter'', VList [gX g, gy g])]"
    and "\<And>a. P ''.optimize'' [a, VFun 0] [(''n_trials'', VInt N_TRIALS), (''n_jobs'', gn_workers g),
                     (''callbacks'', callbacks_arg callbacks)]"
    and "list_all (\<lambda>cb. \<forall>vs. all_calls P (cb vs)) (callbacks_funs callbacks)"
    and "P ''time.time'' [] []"
    and "\<And>a. P ''print'' a []"
    and "\<And>a b. P ''getattr'' [a, VStr b] []"
    and "\<And>a. P ''.__enter__'' [a] []"
    and "\<And>a b. P ''.__exit__'' [a, b] []"
    and "\<And>a nm lo hi. P ''.suggest_int'' [a, VStr nm, VInt lo, VInt hi] []"
    and "P ''train_test_split'' [gX g, gy g] [(''random_state'', VInt 77)]"
    and "\<And>a b. P ''cuml.ensemble.RandomForestClassifier'' [] [(''max_depth'', a), (''n_estimators'', b)]"
    and "\<And>a b c. P ''.fit'' [a, b, c] []"
    and "\<And>a b. P ''.predict'' [a, b] []"
    and "\<And>a b. P ''accuracy_score'' [a, b] []"
  shows "all_calls P (run_study g sampler study_name callbacks)"
  unfolding run_study_def
  by (intro all_calls_intros all_calls_objective)
    (simp_all add: assms assms(1)[simplified] all_calls_lambda1 all_calls_objective)

lemma sample_lib_suggest_in_range: "suggest_in_range sample_lib"
  by (auto simp: suggest_in_range_def sample_lib_def sample_answer_def)

lemma sample_train_and_eval:
  "run sample_lib (train_and_eval (VRef 5) (VRef 6) max_depth n_estimators) s
     = (Inr (VFloat (21 / 25)), s)"
  by (simp add: train_and_eval_def unpack4_def run_pbind run_call sample_lib_def sample_answer_def)

lemma sample_objective:
  "run sample_lib (objective trial (VRef 5) (VRef 6)) s = (Inr (VFloat (21 / 25)), s)"
  by (simp add: objective_def train_and_eval_def unpack4_def run_pbind run_call sample_lib_def sample_answer_def)

text \<open>
  C1. For every trial, \<open>objective\<close> asks the trial for an integer \<open>max_depth\<close> of \<open>[10, 15]\<close>
  and an integer \<open>n_estimators\<close> of \<open>[200, 700]\<close> and then is \<open>train_and_eval\<close> on the data it
  was passed with these two values: the same result, and no call of its own beyond the
  two samplings. (If a sampling raises, so does \<open>objective\<close>.)
\<close>

theorem objective_samples_and_delegates:
  assumes "suggest_in_range H"
  shows "case H ''.suggest_int'' [trial, VStr ''max_depth'', VInt 10, VInt 15] [] [] s of
           (Inl e, s1) \<Rightarrow> run H (objective trial X_param y_param) s = (Inl e, s1)
         | (Inr max_depth, s1) \<Rightarrow>
             (case H ''.suggest_int'' [trial, VStr ''n_estimators'', VInt 200, VInt 700] [] [] s1 of
                (Inl e, s2) \<Rightarrow> run H (objective trial X_param y_param) s = (Inl e, s2)
              | (Inr n_estimators, s2) \<Rightarrow>
                  (\<exists>i j. max_depth = VInt i \<and> 10 \<le> i \<and> i \<le> 15 \<and>
                         n_estimators = VInt j \<and> 200 \<le> j \<and> j \<le> 700) \<and>
                  run H (objective trial X_param y_param) s =
                    run H (train_and_eval X_param y_param max_depth n_estimators) s2 \<and>
                  trace H (objective trial X_param y_param) s =
                    [(''.suggest_int'', [trial, VStr ''max_depth'', VInt 10, VInt 15], [],
                      Inr max_depth),
                     (''.suggest_int'', [trial, VStr ''n_estimators'', VInt 200, VInt 700], [],
                      Inr n_estimators)]
                    @ trace H (train_and_eval X_param y_param max_depth n_estimators) s2)"
proof (cases "H ''.suggest_int'' [trial, VStr ''max_depth'', VInt 10, VInt 15] [] [] s")
  case (Pair r1 s1)
  show ?thesis
  proof (cases r1)
    case (Inl e)
    with Pair show ?thesis
      by (simp add: objective_def run_pbind run_call)
  next
    case (Inr max_depth)
    note first = Pair [unfolded Inr]
    obtain r2 s2 where second:
      "H ''.suggest_int'' [trial, VStr ''n_estimators'', VInt 200, VInt 700] [] [] s1 = (r2, s2)"
      by (cases "H ''.suggest_int'' [trial, VStr ''n_estimators'', VInt 200, VInt 700] [] [] s1")
    show ?thesis
    proof (cases r2)
      case (Inl e)
      with first second show ?thesis
        by (simp add: objective_def run_pbind run_call)
    next
      case (Inr n_estimators)
      from assms first obtain i where i: "max_depth = VInt i" "10 \<le> i" "i \<le> 15"
        unfolding suggest_in_range_def by blast
      from assms second Inr obtain j where j: "n_estimators = VInt j" "200 \<le> j" "j \<le> 700"
        unfolding suggest_in_range_def by blast
      have "run H (objective trial X_param y_param) s =
              run H (train_and_eval X_param y_param max_depth n_estimators) s2"
        using first second Inr
        by (simp add: objective_def run_pbind run_call split: prod.splits sum.splits)
      moreover have "trace H (objective trial X_param y_param) s =
          [(''.suggest_int'', [trial, VStr ''max_depth'', VInt 10, VInt 15], [], Inr max_depth),
           (''.suggest_int'', [trial, VStr ''n_estimators'', VInt 200, VInt 700], [],
            Inr n_estimators)]
          @ trace H (train_and_eval X_param y_param max_depth n_estimators) s2"
        using first second Inr
        by (simp add: objective_def run_pbind trace_pbind run_call trace_call
            split: prod.splits sum.splits)
      ultimately show ?thesis
        using first second Inr i j by simp
    qed
  qed
qed

theorem objective_samples_and_delegates_witness:
  "suggest_in_range sample_lib \<and>
   run sample_lib (objective (VRef 50) (VRef 5) (VRef 6)) s0 =
     run sample_lib (train_and_eval (VRef 5) (VRef 6) (VInt 15) (VInt 700)) s0 \<and>
   fst (run sample_lib (objective (VRef 50) (VRef 5) (VRef 6)) s0) = Inr (VFloat (21 / 25))"
  using objective_samples_and_delegates [OF sample_lib_suggest_in_range,
      where trial = "VRef 50" and s = s0 and X_param = "VRef 5" and y_param = "VRef 6"]
  by (simp add: sample_lib_suggest_in_range sample_train_and_eval sample_lib_def sample_answer_def)

text \<open>
  C7. \<open>seq_call\<close> returns the triple of the score of \<open>train_and_eval\<close> and the two
  parameters it was given, making the same calls as \<open>train_and_eval\<close>; and where a trial
  samples these parameters, \<open>objective\<close> computes that same score.
\<close>

theorem seq_call_returns_score_with_parameters:
  "run H (seq_call Xa ya max_depth n_estimators) s =
     (case run H (train_and_eval Xa ya max_depth n_estimators) s of
        (Inl e, s') \<Rightarrow> (Inl e, s')
      | (Inr score, s') \<Rightarrow> (Inr (VTuple [score, max_depth, n_estimators]), s')) \<and>
   trace H (seq_call Xa ya max_depth n_estimators) s =
     trace H (train_and_eval Xa ya max_depth n_estimators) s \<and>
   (H ''.suggest_int'' [trial, VStr ''max_depth'', VInt 10, VInt 15] [] [] s_a = (Inr max_depth, s_b) \<and>
    H ''.suggest_int'' [trial, VStr ''n_estimators'', VInt 200, VInt 700] [] [] s_b = (Inr n_estimators, s)
    \<longrightarrow>
    run H (seq_call Xa ya max_depth n_estimators) s =
      (case run H (objective trial Xa ya) s_a of
         (Inl e, s') \<Rightarrow> (Inl e, s')
       | (Inr score, s') \<Rightarrow> (Inr (VTuple [score, max_depth, n_estimators]), s')))"
  by (auto simp: seq_call_def objective_def run_pbind trace_pbind run_call
      split: prod.splits sum.splits)

theorem seq_call_returns_score_with_parameters_witness:
  "run sample_lib (seq_call (VRef 5) (VRef 6) (VInt 15) (VInt 700)) s0 =
     (Inr (VTuple [VFloat (21 / 25), VInt 15, VInt 700]), s0) \<and>
   run sample_lib (objective (VRef 50) (VRef 5) (VRef 6)) s0 = (Inr (VFloat (21 / 25)), s0)"
  using seq_call_returns_score_with_parameters
    [where H = sample_lib and Xa = "VRef 5" and ya = "VRef 6" and max_depth = "VInt 15"
       and n_estimators = "VInt 700" and s = s0 and trial = "VRef 50" and s_a = s0 and s_b = s0]
  by (simp add: sample_train_and_eval sample_objective sample_lib_def sample_answer_def)

text \<open>
  C10. \<open>timed\<close> prints its line only when the block completes normally. If the block
  raises, \<open>timed\<close> raises the same exception, in the state the block left, having made no
  call after the block (nothing is printed). If the block returns, \<open>timed\<close> reads the clock
  once more, prints exactly one line, the name with the difference of the two readings,
  and hands on the value of the block.
\<close>

theorem timed_prints_only_on_normal_completion:
  "(H ''time.time'' [] [] [] s = (Inr t_start, s_in) \<and> run H body s_in = (Inl e, s_out) \<longrightarrow>
      run H (timed name body) s = (Inl e, s_out) \<and>
      trace H (timed name body) s = (''time.time'', [], [], Inr t_start) # trace H body s_in)
   \<and> (H ''time.time'' [] [] [] s = (Inr t_start, s_in) \<and> run H body s_in = (Inr v, s_out) \<and>
      H ''time.time'' [] [] [] s_out = (Inr t_end, s_end) \<and> py_sub t_end t_start = Inr d \<and>
      H ''print'' [VFmt ''..%-24s:  %8.4f'' [name, d]] [] [] s_end = (Inr u, s_fin) \<longrightarrow>
      run H (timed name body) s = (Inr v, s_fin) \<and>
      trace H (timed name body) s =
        (''time.time'', [], [], Inr t_start) # trace H body s_in @
        [(''time.time'', [], [], Inr t_end),
         (''print'', [VFmt ''..%-24s:  %8.4f'' [name, d]], [], Inr u)])"
  by (simp add: timed_def print_def run_pbind trace_pbind run_call trace_call)

theorem timed_prints_only_on_normal_completion_witness:
  "run sample_lib (timed (VStr ''demo'') (call ''train_test_split'' [VRef 0, VRef 6] [])) s0
     = (Inl (PyErr ''ValueError''), s0\<lparr>clock := 4\<rparr>) \<and>
   names (trace sample_lib (timed (VStr ''demo'') (call ''train_test_split'' [VRef 0, VRef 6] [])) s0)
     = [''time.time'', ''train_test_split''] \<and>
   run sample_lib (timed (VStr ''demo'') (call ''train_test_split'' [VRef 5, VRef 6] [])) s0
     = (Inr (VTuple [VRef 10, VRef 11, VRef 12, VRef 13]), s0\<lparr>clock := 5\<rparr>) \<and>
   trace sample_lib (timed (VStr ''demo'') (call ''train_test_split'' [VRef 5, VRef 6] [])) s0
     = [(''time.time'', [], [], Inr (VFloat 3)),
        (''train_test_split'', [VRef 5, VRef 6], [],
         Inr (VTuple [VRef 10, VRef 11, VRef 12, VRef 13])),
        (''time.time'', [], [], Inr (VFloat 4)),
        (''print'', [VFmt ''..%-24s:  %8.4f'' [VStr ''demo'', VFloat 1]], [], Inr VNone)]"
proof -
  have a: "sample_lib ''time.time'' [] [] [] s0 = (Inr (VFloat 3), s0\<lparr>clock := 4\<rparr>)"
    by (simp add: sample_lib_def sample_answer_def s0_def)
  have b: "run sample_lib (call ''train_test_split'' [VRef 0, VRef 6] []) (s0\<lparr>clock := 4\<rparr>)
             = (Inl (PyErr ''ValueError''), s0\<lparr>clock := 4\<rparr>)"
    by (simp add: run_call sample_lib_def sample_answer_def)
  have c: "run sample_lib (call ''train_test_split'' [VRef 5, VRef 6] []) (s0\<lparr>clock := 4\<rparr>)
             = (Inr (VTuple [VRef 10, VRef 11, VRef 12, VRef 13]), s0\<lparr>clock := 4\<rparr>)"
    by (simp add: run_call sample_lib_def sample_answer_def)
  have d: "sample_lib ''time.time'' [] [] [] (s0\<lparr>clock := 4\<rparr>)
             = (Inr (VFloat 4), s0\<lparr>clock := 5\<rparr>)"
    by (simp add: sample_lib_def sample_answer_def s0_def)
  have e: "sample_lib ''print'' [VFmt ''..%-24s:  %8.4f'' [VStr ''demo'', VFloat 1]] [] []
             (s0\<lparr>clock := 5\<rparr>) = (Inr VNone, s0\<lparr>clock := 5\<rparr>)"
    by (simp add: sample_lib_def sample_answer_def)
  have f: "py_sub (VFloat 4) (VFloat 3) = Inr (VFloat 1)" by (simp add: py_sub_def)
  have t1: "trace sample_lib (call ''train_test_split'' [VRef 0, VRef 6] []) (s0\<lparr>clock := 4\<rparr>)
      = [(''train_test_split'', [VRef 0, VRef 6], [], Inl (PyErr ''ValueError''))]"
    by (simp add: trace_call sample_lib_def sample_answer_def)
  have t2: "trace sample_lib (call ''train_test_split'' [VRef 5, VRef 6] []) (s0\<lparr>clock := 4\<rparr>)
      = [(''train_test_split'', [VRef 5, VRef 6], [],
          Inr (VTuple [VRef 10, VRef 11, VRef 12, VRef 13]))]"
    by (simp add: trace_call sample_lib_def sample_answer_def)
  show ?thesis
    using timed_prints_only_on_normal_completion
      [where H = sample_lib and s = s0 and t_start = "VFloat 3" and s_in = "s0\<lparr>clock := 4\<rparr>"
         and body = "call ''train_test_split'' [VRef 0, VRef 6] []" and e = "PyErr ''ValueError''"
         and s_out = "s0\<lparr>clock := 4\<rparr>" and name = "VStr ''demo''"]
      timed_prints_only_on_normal_completion
      [where H = sample_lib and s = s0 and t_start = "VFloat 3" and s_in = "s0\<lparr>clock := 4\<rparr>"
         and body = "call ''train_test_split'' [VRef 5, VRef 6] []" and name = "VStr ''demo''"
         and v = "VTuple [VRef 10, VRef 11, VRef 12, VRef 13]" and s_out = "s0\<lparr>clock := 4\<rparr>"
         and t_end = "VFloat 4" and s_end = "s0\<lparr>clock := 5\<rparr>" and d = "VFloat 1"
         and u = VNone and s_fin = "s0\<lparr>clock := 5\<rparr>"]
      a b c d e f t1 t2
    by (simp add: names_def)
qed

section \<open>Exceptions pass through\<close>

lemma uncaught_Return [simp]: "uncaught H (Return v)"
  by (simp add: uncaught_def)

lemma uncaught_Raise [simp]: "uncaught H (Raise e)"
  by (simp add: uncaught_def)

lemma uncaught_lift [simp]: "uncaught H (lift r)"
  by (simp add: uncaught_def)

lemma uncaught_hcall [simp]: "uncaught H (hcall f as kw cbs)"
  by (simp add: uncaught_def trace_hcall run_hcall answer_def)

lemma uncaught_call [simp]: "uncaught H (call f as kw)"
  by (simp add: call_def)

lemma uncaught_attr [simp]: "uncaught H (attr obj nm)"
  by (simp add: attr_def)

lemma uncaught_print [simp]: "uncaught H (print xs)"
  by (simp add: print_def)

lemma uncaught_pbind:
  assumes m: "uncaught H m" and g: "\<And>v. uncaught H (g v)"
  shows "uncaught H (pbind m g)"
  unfolding uncaught_def
proof (intro allI ballI impI)
  fix s en e
  assume en: "en \<in> set (trace H (pbind m g) s)" and a: "answer en = Inl e"
  obtain r s' where r: "run H m s = (r, s')" by (cases "run H m s")
  show "fst (run H (pbind m g) s) = Inl e"
  proof (cases "en \<in> set (trace H m s)")
    case True
    with m a have "fst (run H m s) = Inl e" unfolding uncaught_def by blast
    with r show ?thesis by (simp add: run_pbind)
  next
    case False
    with en r obtain v where v: "r = Inr v" "en \<in> set (trace H (g v) s')"
      by (cases r) (auto simp: trace_pbind)
    with g [of v] a have "fst (run H (g v) s') = Inl e" unfolding uncaught_def by blast
    with r v show ?thesis by (simp add: run_pbind)
  qed
qed

lemma uncaught_with_cm:
  assumes H: "exits_decline H" and body: "uncaught H body"
  shows "uncaught H (with_cm cm body)"
proof -
  have "uncaught H (ptry body
       (\<lambda>v. pbind (call ''.__exit__'' [cm, VNone] []) (\<lambda>_. Return v))
       (\<lambda>e. pbind (call ''.__exit__'' [cm, VExc e] []) (\<lambda>r.
               if truthy r then Return VNone else Raise e)))" (is "uncaught H (ptry body ?A ?B)")
    unfolding uncaught_def
  proof (intro allI ballI impI)
    fix s en e
    assume en: "en \<in> set (trace H (ptry body ?A ?B) s)" and a: "answer en = Inl e"
    obtain r s' where r: "run H body s = (r, s')" by (cases "run H body s")
    have B: "\<And>e' t. run H (?B e') t = (Inl e', snd (H ''.__exit__'' [cm, VExc e'] [] [] t))
                \<and> (\<forall>en\<in>set (trace H (?B e') t). \<forall>e. answer en \<noteq> Inl e)"
    proof -
      fix e' t
      from H obtain x t' where "H ''.__exit__'' [cm, VExc e'] [] [] t = (Inr x, t')" "\<not> truthy x"
        unfolding exits_decline_def by blast
      then show "run H (?B e') t = (Inl e', snd (H ''.__exit__'' [cm, VExc e'] [] [] t))
                \<and> (\<forall>en\<in>set (trace H (?B e') t). \<forall>e. answer en \<noteq> Inl e)"
        by (simp add: run_pbind trace_pbind run_call trace_call answer_def)
    qed
    have A: "\<And>v. uncaught H (?A v)"
      by (intro uncaught_pbind) simp_all
    show "fst (run H (ptry body ?A ?B) s) = Inl e"
    proof (cases "en \<in> set (trace H body s)")
      case True
      with body a have "fst (run H body s) = Inl e" unfolding uncaught_def by blast
      with r have "r = Inl e" by simp
      with r B [of e s'] show ?thesis by (simp add: run_ptry)
    next
      case False
      show ?thesis
      proof (cases r)
        case (Inl e')
        with en r False have "en \<in> set (trace H (?B e') s')" by (auto simp: trace_ptry)
        with B [of e' s'] a show ?thesis by blast
      next
        case (Inr v)
        with en r False have "en \<in> set (trace H (?A v) s')" by (auto simp: trace_ptry)
        with A [of v] a have "fst (run H (?A v) s') = Inl e" unfolding uncaught_def by blast
        with r Inr show ?thesis by (simp add: run_ptry)
      qed
    qed
  qed
  then show ?thesis
    unfolding with_cm_def by (intro uncaught_pbind) simp_all
qed

lemma uncaught_unpack4: "(\<And>a b c d. uncaught H (g a b c d)) \<Longrightarrow> uncaught H (unpack4 v g)"
  unfolding unpack4_def by (auto split: sum.splits list.splits)

lemma uncaught_unpack2: "(\<And>a b. uncaught H (g a b)) \<Longrightarrow> uncaught H (unpack2 v g)"
  unfolding unpack2_def by (auto split: sum.splits list.splits)

lemma uncaught_for_loop:
  "(\<And>a x. uncaught H (body a x)) \<Longrightarrow> uncaught H (for_loop xs body acc)"
  by (induction xs arbitrary: acc) (auto intro!: uncaught_pbind)

lemma uncaught_for_in: "(\<And>x. uncaught H (body x)) \<Longrightarrow> uncaught H (for_in v body)"
  unfolding for_in_def by (auto split: sum.splits intro!: uncaught_for_loop)

lemma uncaught_timed: "uncaught H body \<Longrightarrow> uncaught H (timed name body)"
  unfolding timed_def
  by (intro uncaught_pbind) (auto split: sum.splits intro!: uncaught_pbind)

lemma uncaught_if: "uncaught H a \<Longrightarrow> uncaught H b \<Longrightarrow> uncaught H (if c then a else b)"
  by simp

lemmas uncaught_intros = uncaught_pbind uncaught_unpack4 uncaught_unpack2 uncaught_for_loop
  uncaught_for_in uncaught_timed uncaught_if

lemma uncaught_train_and_eval: "uncaught H (train_and_eval X_param y_param max_depth n_estimators)"
  unfolding train_and_eval_def by (intro uncaught_intros) simp_all

lemma uncaught_objective: "uncaught H (objective trial X_param y_param)"
  unfolding objective_def by (intro uncaught_intros uncaught_train_and_eval) simp_all

lemma uncaught_objective_mg: "uncaught H (objective_mg g trial Xa ya)"
  unfolding objective_mg_def by (intro uncaught_intros) simp_all

lemma uncaught_seq_call: "uncaught H (seq_call Xa ya max_depth n_estimators)"
  unfolding seq_call_def by (intro uncaught_intros uncaught_train_and_eval) simp_all

lemma uncaught_mlflow_callback:
  "exits_decline H \<Longrightarrow> uncaught H (mlflow_callback study trial)"
  unfolding mlflow_callback_def by (intro uncaught_intros uncaught_with_cm) simp_all

lemma uncaught_run_study:
  "exits_decline H \<Longrightarrow> uncaught H (run_study g sampler study_name callbacks)"
  unfolding run_study_def by (intro uncaught_intros uncaught_with_cm) simp_all

lemma sample_lib_exits_decline: "exits_decline sample_lib"
  by (simp add: exits_decline_def sample_lib_def sample_answer_def)

text \<open>
  C2. No function of the notebook catches or replaces an exception. Against any library
  whose context managers do not swallow exceptions, whenever a call made by
  \<open>train_and_eval\<close>, \<open>objective\<close>, \<open>objective_mg\<close>, \<open>run_study\<close>, \<open>seq_call\<close>, \<open>mlflow_callback\<close> or
  by \<open>timed\<close> around such a block is answered by an exception, the function ends with that
  exception and with no other result.
\<close>

theorem notebook_functions_let_exceptions_through:
  assumes "exits_decline H"
  shows "uncaught H (train_and_eval X_param y_param max_depth n_estimators) \<and>
         uncaught H (objective trial X_param y_param) \<and>
         uncaught H (objective_mg g trial X_param y_param) \<and>
         uncaught H (run_study g sampler study_name callbacks) \<and>
         uncaught H (seq_call X_param y_param max_depth n_estimators) \<and>
         (uncaught H body \<longrightarrow> uncaught H (timed name body)) \<and>
         uncaught H (mlflow_callback study trial)"
  using assms
  by (simp add: uncaught_train_and_eval uncaught_objective uncaught_objective_mg
      uncaught_run_study uncaught_seq_call uncaught_timed uncaught_mlflow_callback)

theorem notebook_functions_let_exceptions_through_witness:
  "exits_decline sample_lib \<and>
   (''train_test_split'', [VRef 0, VRef 6], [(''random_state'', VInt 77)], Inl (PyErr ''ValueError''))
     \<in> set (trace sample_lib (timed (VStr ''demo'') (seq_call (VRef 0) (VRef 6) (VInt 16) (VInt 100))) s0) \<and>
   fst (run sample_lib (timed (VStr ''demo'') (seq_call (VRef 0) (VRef 6) (VInt 16) (VInt 100))) s0)
     = Inl (PyErr ''ValueError'')"
proof -
  let ?p = "timed (VStr ''demo'') (seq_call (VRef 0) (VRef 6) (VInt 16) (VInt 100))"
  let ?en = "(''train_test_split'', [VRef 0, VRef 6], [(''random_state'', VInt 77)],
              Inl (PyErr ''ValueError''))"
  have mem: "?en \<in> set (trace sample_lib ?p s0)"
    by (simp add: timed_def seq_call_def train_and_eval_def trace_pbind run_pbind trace_call
        run_call sample_lib_def sample_answer_def)
  from notebook_functions_let_exceptions_through [OF sample_lib_exits_decline,
      where X_param = "VRef 0" and y_param = "VRef 6" and max_depth = "VInt 16"
        and n_estimators = "VInt 100" and name = "VStr ''demo''"
        and body = "seq_call (VRef 0) (VRef 6) (VInt 16) (VInt 100)"]
  have "uncaught sample_lib ?p" by blast
  with mem have "fst (run sample_lib ?p s0) = Inl (PyErr ''ValueError'')"
    unfolding uncaught_def by (auto simp: answer_def)
  with mem show ?thesis by (simp add: sample_lib_exits_decline)
qed

section \<open>The calls of the whole notebook\<close>

lemma all_calls_cells:
  assumes leaf: "\<And>f as kw. f \<notin> set [''optuna.create_study'', ''parallel_backend'',
                    ''cudf.read_parquet'', ''.has_what'', ''.keys'', ''dask_cudf.from_cudf''] \<Longrightarrow> P f as kw"
    and study: "\<And>sampler name. P ''optuna.create_study'' []
             [(''sampler'', sampler), (''study_name'', VStr name),
              (''storage'', VStr (''sqlite:///_'' @ name @ ''.db'')),
              (''direction'', VStr ''maximize''), (''load_if_exists'', VBool True)]"
    and dask: "P ''parallel_backend'' [VStr ''dask'']
             [(''n_jobs'', gn_workers g), (''client'', gc g), (''scatter'', VList [gX g, gy g])]"
    and loky: "P ''parallel_backend'' [VStr ''loky''] [(''n_jobs'', gn_workers g)]"
    and parts: "\<And>a. P ''dask_cudf.from_cudf'' [a] [(''npartitions'', VInt 2)]"
  shows "all_calls P (cells g)"
proof -
  note st = study [of _ "''optuna-joblib-dask-backend''", simplified]
    study [of _ "''optuna-joblib-loky-backend''", simplified]
    study [of _ "''optuna-simple''", simplified]
    study [of _ "''optuna-joblib-dask-backend-mlflow-callback''", simplified]
    study [of _ "''optuna-mnmg-joblib---''", simplified]
  show ?thesis
    unfolding cells_def cell10_def cell15_def cell16_def cell17_def cell22_def
      delayed_seq_call_def cell24_def cell27_def cell30_def
    by ((intro all_calls_intros all_calls_run_study all_calls_train_and_eval all_calls_objective
          all_calls_objective_mg all_calls_seq_call all_calls_mlflow_callback allI ballI conjI
        | simp add: leaf st dask loky parts list_all_iff callbacks_funs_def)+)
qed


lemma all_calls_notebook:
  assumes leaf: "\<And>f as kw. f \<notin> set [''optuna.create_study'', ''parallel_backend'',
                    ''cudf.read_parquet'', ''.has_what'', ''.keys'', ''dask_cudf.from_cudf''] \<Longrightarrow> P f as kw"
    and study: "\<And>sampler name. P ''optuna.create_study'' []
             [(''sampler'', sampler), (''study_name'', VStr name),
              (''storage'', VStr (''sqlite:///_'' @ name @ ''.db'')),
              (''direction'', VStr ''maximize''), (''load_if_exists'', VBool True)]"
    and dask: "\<And>n cl a b. P ''parallel_backend'' [VStr ''dask'']
             [(''n_jobs'', n), (''client'', cl), (''scatter'', VList [a, b])]"
    and loky: "\<And>n. P ''parallel_backend'' [VStr ''loky''] [(''n_jobs'', n)]"
    and parts: "\<And>a. P ''dask_cudf.from_cudf'' [a] [(''npartitions'', VInt 2)]"
    and workers: "\<And>a. P ''.has_what'' [a] []" "\<And>a. P ''.keys'' [a] []"
    and input: "P ''cudf.read_parquet'' [VStr INPUT_FILE] []"
  shows "all_calls P notebook"
  unfolding notebook_def cell4_def cell6_def
  by (intro all_calls_intros all_calls_cells)
    (simp_all add: leaf study study[simplified] dask loky parts workers input)

lemma all_callsD: "all_calls P p \<Longrightarrow> occurs f as kw p \<Longrightarrow> P f as kw"
  by (simp add: all_calls_def)

lemma storage_inj: "''sqlite:///_'' @ a @ ''.db'' = ''sqlite:///_'' @ b @ ''.db'' \<longleftrightarrow> a = b"
  by simp

lemma occurs_in_run: "(f, as, kw, r) \<in> set (trace H p s) \<Longrightarrow> occurs f as kw p"
  by (rule trace_occurs)

text \<open>
  C5. The input table is read from the one path \<open>INPUT_FILE\<close>, and every study that the
  notebook creates, in \<open>run_study\<close> and inline, is created with the storage
  \<^verbatim>\<open>sqlite:///_\<close> + study name + \<^verbatim>\<open>.db\<close>, the direction \<^verbatim>\<open>maximize\<close> and
  \<^verbatim>\<open>load_if_exists=True\<close>; two studies with different names get different storage paths.
\<close>

theorem studies_persist_under_their_name:
  "(occurs ''cudf.read_parquet'' as kw notebook \<longrightarrow> as = [VStr INPUT_FILE] \<and> kw = []) \<and>
   (occurs ''optuna.create_study'' as kw notebook \<longrightarrow>
      as = [] \<and>
      (\<exists>sampler name.
         kw = [(''sampler'', sampler), (''study_name'', VStr name),
               (''storage'', VStr (''sqlite:///_'' @ name @ ''.db'')),
               (''direction'', VStr ''maximize''), (''load_if_exists'', VBool True)])) \<and>
   (occurs ''optuna.create_study'' as kw (run_study g sampler study_name None) \<longrightarrow>
      as = [] \<and>
      kw = [(''sampler'', sampler), (''study_name'', VStr study_name),
            (''storage'', VStr (''sqlite:///_'' @ study_name @ ''.db'')),
            (''direction'', VStr ''maximize''), (''load_if_exists'', VBool True)]) \<and>
   (name_a \<noteq> name_b \<longrightarrow> ''sqlite:///_'' @ name_a @ ''.db'' \<noteq> ''sqlite:///_'' @ name_b @ ''.db'')"
proof -
  let ?P = "\<lambda>f as kw.
     (f = ''cudf.read_parquet'' \<longrightarrow> as = [VStr INPUT_FILE] \<and> kw = []) \<and>
     (f = ''optuna.create_study'' \<longrightarrow>
        as = [] \<and>
        (\<exists>sampler name.
           kw = [(''sampler'', sampler), (''study_name'', VStr name),
                 (''storage'', VStr (''sqlite:///_'' @ name @ ''.db'')),
                 (''direction'', VStr ''maximize''), (''load_if_exists'', VBool True)]))"
  let ?Q = "\<lambda>f as kw.
     (f = ''optuna.create_study'' \<longrightarrow>
        as = [] \<and>
        kw = [(''sampler'', sampler), (''study_name'', VStr study_name),
              (''storage'', VStr (''sqlite:///_'' @ study_name @ ''.db'')),
              (''direction'', VStr ''maximize''), (''load_if_exists'', VBool True)])"
  have "all_calls ?P notebook"
    by (rule all_calls_notebook) auto
  moreover have "all_calls ?Q (run_study g sampler study_name None)"
    by (rule all_calls_run_study) (simp_all add: callbacks_funs_def)
  ultimately show ?thesis
    by (auto dest: all_callsD)
qed

section \<open>The split of the data\<close>

lemma no_splits:
  "all_calls (\<lambda>f as kw. f \<noteq> ''train_test_split'') p \<Longrightarrow> splits (trace H p s) = []"
proof -
  assume a: "all_calls (\<lambda>f as kw. f \<noteq> ''train_test_split'') p"
  have "fst en \<noteq> ''train_test_split''" if "en \<in> set (trace H p s)" for en
  proof -
    obtain f as kw r where en: "en = (f, as, kw, r)" by (cases en)
    with that have "occurs f as kw p" by (auto dest: trace_occurs)
    from all_callsD [OF a this] en show ?thesis by simp
  qed
  then show ?thesis by (simp add: splits_def filter_empty_conv)
qed

lemma splits_append [simp]: "splits (xs @ ys) = splits xs @ splits ys"
  by (simp add: splits_def)

lemma splits_Nil [simp]: "splits [] = []"
  by (simp add: splits_def)

lemma splits_Cons [simp]:
  "splits (en # es) = (if fst en = ''train_test_split'' then en # splits es else splits es)"
  by (simp add: splits_def)

lemma splits_train_and_eval:
  "splits (trace H (train_and_eval X_param y_param max_depth n_estimators) s) =
     [(''train_test_split'', [X_param, y_param], [(''random_state'', VInt 77)],
       fst (H ''train_test_split'' [X_param, y_param] [(''random_state'', VInt 77)] [] s))]"
proof -
  have rest: "\<And>split t. splits (trace H
      (unpack4 split (\<lambda>X_train X_valid y_train y_valid.
         pbind (call ''cuml.ensemble.RandomForestClassifier'' []
                  [(''max_depth'', max_depth), (''n_estimators'', n_estimators)]) (\<lambda>classifier.
         pbind (call ''.fit'' [classifier, X_train, y_train] []) (\<lambda>_.
         pbind (call ''.predict'' [classifier, X_valid] []) (\<lambda>y_pred.
         pbind (call ''accuracy_score'' [y_valid, y_pred] []) (\<lambda>score.
         Return score)))))) t) = []"
    by (rule no_splits) (intro all_calls_intros; simp)
  show ?thesis
    unfolding train_and_eval_def
    by (simp add: trace_pbind trace_call rest split: prod.splits sum.splits)
qed

lemma splits_objective_mg:
  "en \<in> set (splits (trace H (objective_mg g trial Xa ya) s)) \<Longrightarrow>
     \<exists>t. en = (''train_test_split'', [Xa, ya], [(''random_state'', VInt 77)],
                fst (H ''train_test_split'' [Xa, ya] [(''random_state'', VInt 77)] [] t))"
proof -
  have rest: "\<And>max_depth n_estimators split t. splits (trace H
      (unpack4 split (\<lambda>X_train X_valid y_train y_valid.
     pbind (call ''import'' [VStr ''cuml.dask.ensemble'', VStr ''RandomForestClassifier''] []) (\<lambda>_.
     pbind (call ''cuml.dask.ensemble.RandomForestClassifier'' []
              [(''max_depth'', max_depth), (''n_estimators'', n_estimators)]) (\<lambda>classifier.
     pbind (call ''dask_cudf.from_cudf'' [X_train] [(''npartitions'', VInt 2)]) (\<lambda>X_train_dask.
     pbind (call ''dask_cudf.from_cudf'' [X_valid] [(''npartitions'', VInt 2)]) (\<lambda>X_valid_dask.
     pbind (call ''dask_cudf.from_cudf'' [y_train] [(''npartitions'', VInt 2)]) (\<lambda>y_train_dask.
     pbind (call ''dask_cudf.from_cudf'' [y_valid] [(''npartitions'', VInt 2)]) (\<lambda>y_valid_dask.
     pbind (call ''dask_utils.persist_across_workers''
              [gc g, VList [X_train_dask, X_valid_dask, y_train_dask, y_valid_dask]]
              [(''workers'', gworkers g)]) (\<lambda>persisted.
     unpack4 persisted (\<lambda>X_train_dask X_valid_dask y_train_dask y_valid_dask.
     pbind (call ''.fit'' [classifier, X_train_dask, y_train_dask] []) (\<lambda>_.
     pbind (call ''.predict'' [classifier, X_valid_dask] []) (\<lambda>y_pred.
     pbind (call ''.compute'' [y_pred] []) (\<lambda>y_pred_local.
     pbind (call ''accuracy_score'' [y_valid, y_pred_local] []) (\<lambda>score.
     Return score)))))))))))))) t) = []"
    by (rule no_splits) (intro all_calls_intros; simp)
  assume "en \<in> set (splits (trace H (objective_mg g trial Xa ya) s))"
  then show ?thesis
    unfolding objective_mg_def
    by (auto simp: trace_pbind trace_call run_pbind run_call rest
        split: prod.splits sum.splits if_splits) (metis fst_conv)+
qed

lemma sample_lib_split_deterministic: "split_deterministic sample_lib"
  by (auto simp: split_deterministic_def sample_lib_def sample_answer_def split: list.splits val.splits)

text \<open>
  C9. \<open>train_and_eval\<close> and \<open>objective_mg\<close> call \<^verbatim>\<open>train_test_split\<close> on the data they were
  given with \<^verbatim>\<open>random_state=77\<close> and in no other way. \<open>train_and_eval\<close> makes this call
  exactly once in every run, whatever the parameters of the classifier. So against a
  library whose split is a function of its arguments, any two runs on the same data get
  the same partition, for every trial and every state of the library.
\<close>

theorem split_is_seeded_and_repeatable:
  "(occurs ''train_test_split'' as kw (train_and_eval X_param y_param max_depth n_estimators) \<longrightarrow>
      as = [X_param, y_param] \<and> kw = [(''random_state'', VInt 77)]) \<and>
   (occurs ''train_test_split'' as kw (objective_mg g trial X_param y_param) \<longrightarrow>
      as = [X_param, y_param] \<and> kw = [(''random_state'', VInt 77)]) \<and>
   length (splits (trace H (train_and_eval X_param y_param max_depth n_estimators) s)) = 1 \<and>
   (split_deterministic H \<longrightarrow>
      splits (trace H (train_and_eval X_param y_param max_depth n_estimators) s) =
      splits (trace H (train_and_eval X_param y_param max_depth' n_estimators') s') \<and>
      (\<forall>a\<in>set (splits (trace H (objective_mg g trial X_param y_param) s)).
       \<forall>b\<in>set (splits (trace H (objective_mg g' trial' X_param y_param) s')). a = b))"
proof -
  let ?P = "\<lambda>f as kw. f = ''train_test_split'' \<longrightarrow>
              as = [X_param, y_param] \<and> kw = [(''random_state'', VInt 77)]"
  have "all_calls ?P (train_and_eval X_param y_param max_depth n_estimators)"
    by (rule all_calls_train_and_eval) simp_all
  moreover have "all_calls ?P (objective_mg g trial X_param y_param)"
    by (rule all_calls_objective_mg) simp_all
  moreover have "split_deterministic H \<Longrightarrow>
      (\<forall>a\<in>set (splits (trace H (objective_mg g trial X_param y_param) s)).
       \<forall>b\<in>set (splits (trace H (objective_mg g' trial' X_param y_param) s')). a = b)"
  proof (intro ballI)
    fix a b
    assume det: "split_deterministic H"
      and "a \<in> set (splits (trace H (objective_mg g trial X_param y_param) s))"
      and "b \<in> set (splits (trace H (objective_mg g' trial' X_param y_param) s'))"
    then obtain t t' where
      "a = (''train_test_split'', [X_param, y_param], [(''random_state'', VInt 77)],
            fst (H ''train_test_split'' [X_param, y_param] [(''random_state'', VInt 77)] [] t))"
      "b = (''train_test_split'', [X_param, y_param], [(''random_state'', VInt 77)],
            fst (H ''train_test_split'' [X_param, y_param] [(''random_state'', VInt 77)] [] t'))"
      by (blast dest: splits_objective_mg)
    with det show "a = b" unfolding split_deterministic_def by simp
  qed
  moreover have "split_deterministic H \<Longrightarrow>
      splits (trace H (train_and_eval X_param y_param max_depth n_estimators) s) =
      splits (trace H (train_and_eval X_param y_param max_depth' n_estimators') s')"
    unfolding split_deterministic_def by (simp add: splits_train_and_eval)
  ultimately show ?thesis
    by (auto dest: all_callsD simp: splits_train_and_eval)
qed

theorem split_is_seeded_and_repeatable_witness:
  "split_deterministic sample_lib \<and>
   splits (trace sample_lib (train_and_eval (VRef 5) (VRef 6) (VInt 10) (VInt 200)) s0) =
   splits (trace sample_lib (train_and_eval (VRef 5) (VRef 6) (VInt 15) (VInt 700)) (s0\<lparr>clock := 9\<rparr>)) \<and>
   splits (trace sample_lib (train_and_eval (VRef 5) (VRef 6) (VInt 10) (VInt 200)) s0) =
     [(''train_test_split'', [VRef 5, VRef 6], [(''random_state'', VInt 77)],
       Inr (VTuple [VRef 10, VRef 11, VRef 12, VRef 13]))]"
proof -
  have "splits (trace sample_lib (train_and_eval (VRef 5) (VRef 6) (VInt 10) (VInt 200)) s0) =
     [(''train_test_split'', [VRef 5, VRef 6], [(''random_state'', VInt 77)],
       Inr (VTuple [VRef 10, VRef 11, VRef 12, VRef 13]))]"
    by (simp add: splits_train_and_eval sample_lib_def sample_answer_def)
  with split_is_seeded_and_repeatable [where H = sample_lib and X_param = "VRef 5"
      and y_param = "VRef 6" and max_depth = "VInt 10" and n_estimators = "VInt 200"
      and max_depth' = "VInt 15" and n_estimators' = "VInt 700" and s = s0
      and s' = "s0\<lparr>clock := 9\<rparr>"] sample_lib_split_deterministic
  show ?thesis by simp
qed

section \<open>The frames\<close>

lemma keeps_run:
  assumes "keeps fs obs H"
  shows "all_calls (\<lambda>f as kw. f \<in> set fs) p \<Longrightarrow> obs (snd (run H p s)) = obs s"
proof (induction p arbitrary: s)
  case (Call n a kw cbs k)
  from Call.prems have n: "n \<in> set fs"
    unfolding all_calls_def by (blast intro: occurs.here)
  have cb: "\<forall>cb\<in>set (map (\<lambda>cb. run H \<circ> cb) cbs). \<forall>vs t. obs (snd (cb vs t)) = obs t"
  proof (clarsimp)
    fix cb vs t assume in_cbs: "cb \<in> set cbs"
    from Call.prems in_cbs have "all_calls (\<lambda>f as kw. f \<in> set fs) (cb vs)"
      unfolding all_calls_def by (blast intro: occurs.inside)
    with in_cbs show "obs (snd (run H (cb vs) t)) = obs t"
      by (intro Call.IH(1)) auto
  qed
  obtain r s' where h: "H n a kw (map (\<lambda>cb. run H \<circ> cb) cbs) s = (r, s')"
    by (cases "H n a kw (map (\<lambda>cb. run H \<circ> cb) cbs) s")
  from assms n cb have "obs (snd (H n a kw (map (\<lambda>cb. run H \<circ> cb) cbs) s)) = obs s"
    unfolding keeps_def by blast
  with h have s': "obs s' = obs s" by simp
  from Call.prems have "all_calls (\<lambda>f as kw. f \<in> set fs) (k r)"
    unfolding all_calls_def by (blast intro: occurs.later)
  then have "obs (snd (run H (k r) s')) = obs s'"
    by (intro Call.IH(2)) auto
  with h s' show ?case by simp
qed simp_all

lemma library_train_and_eval:
  "all_calls (\<lambda>f as kw. f \<in> set library_calls) (train_and_eval X_param y_param max_depth n_estimators)"
  by (rule all_calls_train_and_eval) (simp_all add: library_calls_def)

lemma library_objective:
  "all_calls (\<lambda>f as kw. f \<in> set library_calls) (objective trial X_param y_param)"
  by (rule all_calls_objective) (simp_all add: library_calls_def)

lemma library_objective_mg:
  "all_calls (\<lambda>f as kw. f \<in> set library_calls) (objective_mg g trial X_param y_param)"
  by (rule all_calls_objective_mg) (simp_all add: library_calls_def)

lemma library_seq_call:
  "all_calls (\<lambda>f as kw. f \<in> set library_calls) (seq_call X_param y_param max_depth n_estimators)"
  by (rule all_calls_seq_call) (simp_all add: library_calls_def)

lemma library_mlflow_callback:
  "all_calls (\<lambda>f as kw. f \<in> set library_calls) (mlflow_callback study trial)"
  by (rule all_calls_mlflow_callback) (simp_all add: library_calls_def)

lemma library_run_study:
  assumes "callbacks = None \<or> callbacks = Some [lambda2 mlflow_callback]"
  shows "all_calls (\<lambda>f as kw. f \<in> set library_calls) (run_study g sampler study_name callbacks)"
proof -
  have cb: "list_all (\<lambda>cb. \<forall>vs. all_calls (\<lambda>f as kw. f \<in> set library_calls) (cb vs))
              (callbacks_funs callbacks)"
    using assms
    by (auto simp: callbacks_funs_def intro!: all_calls_lambda2 library_mlflow_callback)
  show ?thesis
    by (rule all_calls_run_study) (simp_all add: cb, simp_all add: library_calls_def)
qed

lemma sample_lib_keeps_frames: "keeps library_calls frames sample_lib"
  unfolding keeps_def
proof (intro allI impI)
  fix f :: string and as kw and cbs :: "(val list \<Rightarrow> lib_state \<Rightarrow> lib_state outcome) list" and s
  assume f: "f \<in> set library_calls"
    and cbs: "\<forall>cb\<in>set cbs. \<forall>vs t. frames (snd (cb vs t)) = frames t"
  from f have "f \<noteq> ''.__setitem__''"
    by (auto simp: library_calls_def)
  moreover have "frames (snd (case cbs of
           cb # _ \<Rightarrow>
             (case cb [VRef 51] s of (Inl e, s') \<Rightarrow> (Inl e, s') | (Inr v, s') \<Rightarrow> (Inr VNone, s'))
         | [] \<Rightarrow> (Inl (PyErr ''TypeError''), s))) = frames s"
  proof (cases cbs)
    case (Cons cb rest)
    with cbs have "frames (snd (cb [VRef 51] s)) = frames s" by simp
    with Cons show ?thesis by (auto split: prod.splits sum.splits)
  qed simp
  ultimately show "frames (snd (sample_lib f as kw cbs s)) = frames s"
    by (simp add: sample_lib_def)
qed

text \<open>
  C6. The functions of the notebook hand \<open>X\<close> and \<open>y\<close> on as they got them and call nothing
  on them but \<^verbatim>\<open>train_test_split\<close>. Against a library in which the functions they call
  (\<open>library_calls\<close>) leave the contents of the frames alone, \<open>train_and_eval\<close>, \<open>objective\<close>,
  \<open>objective_mg\<close>, \<open>seq_call\<close> and \<open>run_study\<close> leave them as they were, and so does any number
  of sequential trials.
\<close>

theorem frames_stay_as_loaded:
  assumes "keeps library_calls obs H"
  shows "obs (snd (run H (train_and_eval X_param y_param max_depth n_estimators) s)) = obs s \<and>
         obs (snd (run H (objective trial X_param y_param) s)) = obs s \<and>
         obs (snd (run H (objective_mg g trial X_param y_param) s)) = obs s \<and>
         obs (snd (run H (seq_call X_param y_param max_depth n_estimators) s)) = obs s \<and>
         obs (snd (run H (run_study g sampler study_name None) s)) = obs s \<and>
         obs (snd (run H (run_study g sampler study_name (Some [lambda2 mlflow_callback])) s)) = obs s \<and>
         obs (snd (run H (for_loop params
                            (\<lambda>_ p. seq_call X_param y_param (fst p) (snd p)) results) s)) = obs s \<and>
         (occurs ''train_test_split'' as kw (objective trial X_param y_param) \<longrightarrow>
            as = [X_param, y_param]) \<and>
         (occurs ''train_test_split'' as kw (seq_call X_param y_param max_depth n_estimators) \<longrightarrow>
            as = [X_param, y_param]) \<and>
         (occurs ''train_test_split'' as kw (run_study g sampler study_name None) \<longrightarrow>
            as = [gX g, gy g])"
proof -
  have loop: "all_calls (\<lambda>f as kw. f \<in> set library_calls)
                (for_loop params (\<lambda>_ p. seq_call X_param y_param (fst p) (snd p)) results)"
    by (intro all_calls_for_loop library_seq_call)
  have a: "all_calls (\<lambda>f as kw. f = ''train_test_split'' \<longrightarrow> as = [X_param, y_param])
             (objective trial X_param y_param)"
    by (rule all_calls_objective) simp_all
  have b: "all_calls (\<lambda>f as kw. f = ''train_test_split'' \<longrightarrow> as = [X_param, y_param])
             (seq_call X_param y_param max_depth n_estimators)"
    by (rule all_calls_seq_call) simp_all
  have c: "all_calls (\<lambda>f as kw. f = ''train_test_split'' \<longrightarrow> as = [gX g, gy g])
             (run_study g sampler study_name None)"
    by (rule all_calls_run_study) (simp_all add: callbacks_funs_def)
  show ?thesis
    using keeps_run [OF assms library_train_and_eval] keeps_run [OF assms library_objective]
      keeps_run [OF assms library_objective_mg] keeps_run [OF assms library_seq_call]
      keeps_run [OF assms library_run_study, of None]
      keeps_run [OF assms library_run_study, of "Some [lambda2 mlflow_callback]"]
      keeps_run [OF assms loop]
      all_callsD [OF a] all_callsD [OF b] all_callsD [OF c]
    by simp
qed


theorem frames_stay_as_loaded_witness:
  "keeps library_calls frames sample_lib \<and>
   frames (snd (run sample_lib
     (for_loop [(VInt 10, VInt 200), (VInt 15, VInt 700)]
        (\<lambda>_ p. seq_call (VRef 5) (VRef 6) (fst p) (snd p)) VNone) s0)) = [(5, [7, 8]), (6, [0, 1])] \<and>
   frames (snd (run sample_lib (run_study g0 (VRef 9) ''demo'' None) s0)) = [(5, [7, 8]), (6, [0, 1])] \<and>
   frames (snd (run sample_lib (call ''.__setitem__'' [VRef 5, VInt 3] []) s0)) \<noteq> frames s0"
  using frames_stay_as_loaded [OF sample_lib_keeps_frames, where s = s0 and X_param = "VRef 5"
      and y_param = "VRef 6" and g = g0 and sampler = "VRef 9" and study_name = "''demo''"
      and params = "[(VInt 10, VInt 200), (VInt 15, VInt 700)]" and results = VNone]
  by (simp add: sample_lib_keeps_frames s0_def run_call sample_lib_def sample_answer_def)

section \<open>Calls that do occur\<close>

lemma occurs_pbindI1: "occurs f as kw m \<Longrightarrow> occurs f as kw (pbind m g)"
  by (induction rule: occurs.induct) (auto intro: occurs.intros)

lemma occurs_ptryI1: "occurs f as kw m \<Longrightarrow> occurs f as kw (ptry m g h)"
  by (induction rule: occurs.induct) (auto intro: occurs.intros)

lemma occurs_after_call: "occurs f as kw (g v) \<Longrightarrow> occurs f as kw (pbind (call n a k) g)"
  unfolding call_def hcall_def
  by (simp, rule occurs.later [where r = "Inr v"]) (simp add: lift_def)

lemma occurs_after_hcall: "occurs f as kw (g v) \<Longrightarrow> occurs f as kw (pbind (hcall n a k cbs) g)"
  unfolding hcall_def
  by (simp, rule occurs.later [where r = "Inr v"]) (simp add: lift_def)

lemma occurs_in_call: "occurs f as kw (call f as kw)"
  by (simp add: occurs_call)

lemma occurs_in_timed: "occurs f as kw body \<Longrightarrow> occurs f as kw (timed name body)"
  unfolding timed_def
  by (rule occurs_after_call, rule occurs_pbindI1)

lemma occurs_in_with_cm: "occurs f as kw body \<Longrightarrow> occurs f as kw (with_cm cm body)"
  unfolding with_cm_def
  by (rule occurs_after_call, rule occurs_ptryI1)

lemma pbind_assoc: "pbind (pbind m g) h = pbind m (\<lambda>v. pbind (g v) h)"
  by (induction m) simp_all

lemma occurs_create_study_in_run_study:
  "occurs ''optuna.create_study'' []
     [(''sampler'', sampler), (''study_name'', VStr study_name),
      (''storage'', VStr (''sqlite:///_'' @ study_name @ ''.db'')),
      (''direction'', VStr ''maximize''), (''load_if_exists'', VBool True)]
     (run_study g sampler study_name callbacks)"
  unfolding run_study_def
  by (intro occurs_pbindI1 occurs_in_timed) (rule occurs_in_call)

lemma occurs_read_parquet_in_notebook: "occurs ''cudf.read_parquet'' [VStr INPUT_FILE] [] notebook"
  unfolding notebook_def cell4_def cell6_def
  apply (rule occurs_after_call [where v = VNone])
  apply (rule occurs_after_call [where v = VNone])
  apply (rule occurs_after_call [where v = VNone])
  apply (rule occurs_after_call [where v = "VList []"])
  apply (simp add: lift_def)
  apply (rule occurs_pbindI1)
  apply (rule occurs_in_call)
  done

lemma occurs_create_study_in_notebook:
  "occurs ''optuna.create_study'' []
     [(''sampler'', VNone), (''study_name'', VStr ''optuna-joblib-dask-backend''),
      (''storage'', VStr (''sqlite:///_'' @ ''optuna-joblib-dask-backend'' @ ''.db'')),
      (''direction'', VStr ''maximize''), (''load_if_exists'', VBool True)]
     notebook"
  unfolding notebook_def cell4_def cell6_def
  apply (rule occurs_after_call [where v = VNone])
  apply (rule occurs_after_call [where v = VNone])
  apply (rule occurs_after_call [where v = VNone])
  apply (rule occurs_after_call [where v = "VList []"])
  apply (simp add: lift_def del: append.simps)
  apply (rule occurs_after_call [where v = VNone])
  apply (rule occurs_after_call [where v = VNone])
  apply (rule occurs_after_call [where v = VNone])
  apply (rule occurs_after_call [where v = VNone])
  unfolding cells_def cell10_def train_and_eval_def print_def pbind_assoc
  apply (rule occurs_after_call [where v = "VTuple [VNone, VNone, VNone, VNone]"])
  apply (simp add: unpack4_def pbind_assoc del: append.simps)
  apply (rule occurs_after_call [where v = VNone])
  apply (rule occurs_after_call [where v = VNone])
  apply (rule occurs_after_call [where v = VNone])
  apply (rule occurs_after_call [where v = VNone])
  apply (rule occurs_after_call [where v = VNone])
  apply (rule occurs_after_call [where v = VNone])
  apply (rule occurs_pbindI1)
  unfolding cell15_def
  apply (rule occurs_after_call [where v = VNone])
  apply (rule occurs_in_with_cm)
  apply (rule occurs_after_call [where v = VNone])
  apply (rule occurs_create_study_in_run_study)
  done

theorem studies_persist_under_their_name_witness:
  "occurs ''cudf.read_parquet'' [VStr INPUT_FILE] [] notebook \<and>
   occurs ''optuna.create_study'' []
     [(''sampler'', VNone), (''study_name'', VStr ''optuna-joblib-dask-backend''),
      (''storage'', VStr ''sqlite:///_optuna-joblib-dask-backend.db''),
      (''direction'', VStr ''maximize''), (''load_if_exists'', VBool True)] notebook \<and>
   occurs ''optuna.create_study'' []
     [(''sampler'', VRef 9), (''study_name'', VStr ''demo''),
      (''storage'', VStr ''sqlite:///_demo.db''),
      (''direction'', VStr ''maximize''), (''load_if_exists'', VBool True)]
     (run_study g0 (VRef 9) ''demo'' None) \<and>
   ''sqlite:///_demo.db'' \<noteq> ''sqlite:///_optuna-simple.db''"
proof -
  note parquet = studies_persist_under_their_name [where as = "[VStr INPUT_FILE]" and kw = "[]"
      and g = g0 and sampler = "VRef 9" and study_name = "''demo''"
      and name_a = "''demo''" and name_b = "''optuna-simple''"]
  note study = studies_persist_under_their_name [where as = "[]"
      and kw = "[(''sampler'', VRef 9), (''study_name'', VStr ''demo''),
                 (''storage'', VStr (''sqlite:///_'' @ ''demo'' @ ''.db'')),
                 (''direction'', VStr ''maximize''), (''load_if_exists'', VBool True)]"
      and g = g0 and sampler = "VRef 9" and study_name = "''demo''"
      and name_a = "''demo''" and name_b = "''optuna-simple''"]
  have a: "occurs ''cudf.read_parquet'' [VStr INPUT_FILE] [] notebook"
    using parquet occurs_read_parquet_in_notebook by blast
  have b: "occurs ''optuna.create_study'' []
     [(''sampler'', VRef 9), (''study_name'', VStr ''demo''),
      (''storage'', VStr (''sqlite:///_'' @ ''demo'' @ ''.db'')),
      (''direction'', VStr ''maximize''), (''load_if_exists'', VBool True)]
     (run_study g0 (VRef 9) ''demo'' None)"
    using study occurs_create_study_in_run_study [of "VRef 9" "''demo''" g0 None] by blast
  have c: "''sqlite:///_'' @ ''demo'' @ ''.db'' \<noteq> ''sqlite:///_'' @ ''optuna-simple'' @ ''.db''"
    using study by simp
  from a b c occurs_create_study_in_notebook show ?thesis by simp
qed

section \<open>Runs that return\<close>

lemma answer_entry [simp]: "answer (f, as, kw, r) = r"
  by (simp add: answer_def)

lemma answered_Nil [simp]: "answered []"
  by (simp add: answered_def)

lemma answered_Cons [simp]: "answered (en # es) \<longleftrightarrow> (\<exists>v. answer en = Inr v) \<and> answered es"
  by (simp add: answered_def)

lemma answered_append [simp]: "answered (es @ fs) \<longleftrightarrow> answered es \<and> answered fs"
  by (auto simp: answered_def)

lemma returns_Return [simp]: "returns H (Return v) s w es t \<longleftrightarrow> w = v \<and> es = [] \<and> t = s"
  by (auto simp: returns_def)

lemma returns_Raise [simp]: "\<not> returns H (Raise e) s w es t"
  by (simp add: returns_def)

lemma returns_lift [simp]: "returns H (lift r) s w es t \<longleftrightarrow> r = Inr w \<and> es = [] \<and> t = s"
  by (auto simp: returns_def)

lemma returns_hcall:
  "returns H (hcall f as kw cbs) s w es t \<longleftrightarrow>
     H f as kw (map (\<lambda>cb. run H \<circ> cb) cbs) s = (Inr w, t) \<and> es = [(f, as, kw, Inr w)]"
  by (auto simp: returns_def run_hcall trace_hcall)

lemma returns_call:
  "returns H (call f as kw) s w es t \<longleftrightarrow> H f as kw [] s = (Inr w, t) \<and> es = [(f, as, kw, Inr w)]"
  by (simp add: call_def returns_hcall)

lemma returns_attr:
  "returns H (attr obj nm) s w es t \<longleftrightarrow>
     H ''getattr'' [obj, VStr nm] [] [] s = (Inr w, t) \<and> es = [(''getattr'', [obj, VStr nm], [], Inr w)]"
  by (simp add: attr_def returns_call)








section \<open>Straight-line programs\<close>




lemma straight_Return: "straight_line H prev (Return v) []"
  by (simp add: straight_line_def)


lemma straight_call_then:
  assumes args: "args prev = (as, kw)"
    and rest: "\<And>v. straight_line H (prev @ [v]) (g v) steps"
  shows "straight_line H prev (pbind (call f as kw) g) ((f, args) # steps)"
  unfolding straight_line_def
proof (intro allI)
  fix s
  obtain r s1 where h: "H f as kw [] s = (r, s1)" by (cases "H f as kw [] s")
  show "straight_from ((f, args) # steps) prev (trace H (pbind (call f as kw) g) s) \<and>
        (\<forall>v. fst (run H (pbind (call f as kw) g) s) = Inr v \<longrightarrow>
           length (trace H (pbind (call f as kw) g) s) = length ((f, args) # steps) \<and>
           answered (trace H (pbind (call f as kw) g) s))"
  proof (cases r)
    case (Inl e)
    with h args show ?thesis
      by (simp add: trace_pbind run_pbind run_call trace_call)
  next
    case (Inr v)
    with h args rest [of v] show ?thesis
      by (simp add: trace_pbind run_pbind run_call trace_call straight_line_def)
  qed
qed

lemma straight_call:
  assumes "args prev = (as, kw)"
  shows "straight_line H prev (call f as kw) [(f, args)]"
proof -
  have "straight_line H prev (pbind (call f as kw) Return) [(f, args)]"
    using assms by (rule straight_call_then) (rule straight_Return)
  moreover have "pbind (call f as kw) Return = call f as kw"
    by (simp add: call_def hcall_def lift_def fun_eq_iff split: sum.splits)
  ultimately show ?thesis by simp
qed






section \<open>The calls of each function\<close>










lemmas sample_eval = run_study_def timed_def with_cm_def train_and_eval_def objective_def
  unpack4_def unpack2_def for_in_def attr_def print_def callbacks_arg_def callbacks_funs_def
  trace_pbind trace_ptry run_pbind run_ptry run_call trace_call run_hcall trace_hcall
  sample_lib_def sample_answer_def sample_getattr_def sample_create_study_def lambda1_def
  py_sub_def




section \<open>The configuration of the parallel runs\<close>



lemma trace_pbind_call:
  "trace H (pbind (call f as kw) g) s =
     (case H f as kw [] s of
        (Inl e, s') \<Rightarrow> [(f, as, kw, Inl e)]
      | (Inr v, s') \<Rightarrow> (f, as, kw, Inr v) # trace H (g v) s')"
  by (simp add: trace_pbind trace_call run_call split: prod.splits sum.splits)

lemma trace_pbind_lift:
  "trace H (pbind (lift r) g) s = (case r of Inl e \<Rightarrow> [] | Inr v \<Rightarrow> trace H (g v) s)"
  by (cases r) (simp_all add: lift_def)
















section \<open>The study that \<open>run_study\<close> returns\<close>

lemma run_pbind_normal:
  "fst (run H (pbind m g) s) = Inr w \<Longrightarrow>
     \<exists>v s'. run H m s = (Inr v, s') \<and> fst (run H (g v) s') = Inr w \<and>
            trace H (pbind m g) s = trace H m s @ trace H (g v) s'"
  by (cases "run H m s") (auto simp: run_pbind trace_pbind split: sum.splits)

lemma step_call:
  assumes "fst (run H (pbind (call f as kw) g) s) = Inr w"
  shows "\<exists>v s'. H f as kw [] s = (Inr v, s') \<and>
           run H (pbind (call f as kw) g) s = run H (g v) s' \<and>
           trace H (pbind (call f as kw) g) s = (f, as, kw, Inr v) # trace H (g v) s'"
proof (cases "H f as kw [] s")
  case (Pair r s')
  with assms show ?thesis
    by (cases r) (auto simp: run_pbind run_call trace_pbind_call)
qed

lemma step_lift:
  assumes "fst (run H (pbind (lift r) g) s) = Inr w"
  shows "\<exists>v. r = Inr v \<and> run H (pbind (lift r) g) s = run H (g v) s \<and>
           trace H (pbind (lift r) g) s = trace H (g v) s"
  using assms by (cases r) (auto simp: run_pbind trace_pbind_lift)

lemma result_of_const: "fst (run H (pbind m (\<lambda>_. Return x)) s) = Inr w \<Longrightarrow> w = x"
  by (cases "run H m s") (auto simp: run_pbind split: sum.splits)

lemma timed_normal:
  assumes "fst (run H (timed name body) s) = Inr w"
  shows "\<exists>t0 s'. H ''time.time'' [] [] [] s = (Inr t0, s') \<and> fst (run H body s') = Inr w \<and>
           set (trace H body s') \<subseteq> set (trace H (timed name body) s)"
proof -
  define after where "after t0 v =
       pbind (call ''time.time'' [] []) (\<lambda>t1.
       case py_sub t1 t0 of
         Inl e \<Rightarrow> Raise e
       | Inr d \<Rightarrow> pbind (print [VFmt ''..%-24s:  %8.4f'' [name, d]]) (\<lambda>_. Return v))" for t0 v
  have timed: "timed name body = pbind (call ''time.time'' [] []) (\<lambda>t0. pbind body (after t0))"
    unfolding timed_def after_def ..
  from step_call [OF assms [unfolded timed]] obtain t0 s' where
    t0: "H ''time.time'' [] [] [] s = (Inr t0, s')"
    and r: "run H (timed name body) s = run H (pbind body (after t0)) s'"
    and tr: "trace H (timed name body) s =
               (''time.time'', [], [], Inr t0) # trace H (pbind body (after t0)) s'"
    unfolding timed by blast
  from assms r have "fst (run H (pbind body (after t0)) s') = Inr w" by simp
  from run_pbind_normal [OF this] obtain v s'' where
    body: "run H body s' = (Inr v, s'')"
    and rest: "fst (run H (after t0 v) s'') = Inr w"
    and tr': "trace H (pbind body (after t0)) s' = trace H body s' @ trace H (after t0 v) s''"
    by blast
  from step_call [OF rest [unfolded after_def]] obtain t1 s3 where
    "run H (after t0 v) s'' = run H (case py_sub t1 t0 of
         Inl e \<Rightarrow> Raise e
       | Inr d \<Rightarrow> pbind (print [VFmt ''..%-24s:  %8.4f'' [name, d]]) (\<lambda>_. Return v)) s3"
    unfolding after_def by blast
  with rest have "fst (run H (case py_sub t1 t0 of
         Inl e \<Rightarrow> Raise e
       | Inr d \<Rightarrow> pbind (print [VFmt ''..%-24s:  %8.4f'' [name, d]]) (\<lambda>_. Return v)) s3) = Inr w"
    by simp
  then have "w = v"
    by (cases "py_sub t1 t0") (auto dest: result_of_const)
  with t0 body tr tr' show ?thesis
    by auto
qed

lemma quiet_call:
  assumes "keeps [''print'', ''getattr''] obs H" and "f = ''print'' \<or> f = ''getattr''"
  shows "obs (snd (H f as kw [] s)) = obs s"
  using assms unfolding keeps_def by auto


lemma step_quiet:
  assumes "keeps [''print'', ''getattr''] obs H" and "f = ''print'' \<or> f = ''getattr''"
    and "fst (run H (pbind (call f as kw) g) s) = Inr w"
  shows "\<exists>v s'. fst (H f as kw [] s) = Inr v \<and> obs s' = obs s \<and>
           run H (pbind (call f as kw) g) s = run H (g v) s' \<and>
           trace H (pbind (call f as kw) g) s = (f, as, kw, Inr v) # trace H (g v) s'"
proof -
  from step_call [OF assms(3)] obtain v s' where
    h: "H f as kw [] s = (Inr v, s')"
    and r: "run H (pbind (call f as kw) g) s = run H (g v) s'"
    and t: "trace H (pbind (call f as kw) g) s = (f, as, kw, Inr v) # trace H (g v) s'"
    by blast
  from quiet_call [OF assms(1,2), of as kw s] h have "obs s' = obs s" by simp
  with h r t show ?thesis
    by (intro exI [of _ v] exI [of _ s']) simp
qed

lemma trace_answered_by:
  "(f, as, kw, r) \<in> set (trace H p s) \<Longrightarrow> \<exists>cbs t. fst (H f as kw cbs t) = r"
proof (induction p arbitrary: s)
  case (Call n a kw' cbs k)
  obtain r' s' where h: "H n a kw' (map (\<lambda>cb. run H \<circ> cb) cbs) s = (r', s')"
    by (cases "H n a kw' (map (\<lambda>cb. run H \<circ> cb) cbs) s")
  with Call.prems have "(f, as, kw, r) = (n, a, kw', r') \<or> (f, as, kw, r) \<in> set (trace H (k r') s')"
    by simp
  then show ?case
  proof
    assume "(f, as, kw, r) = (n, a, kw', r')"
    with h have "fst (H f as kw (map (\<lambda>cb. run H \<circ> cb) cbs) s) = r" by simp
    then show ?thesis by blast
  next
    assume "(f, as, kw, r) \<in> set (trace H (k r') s')"
    then show ?thesis by (rule Call.IH(2) [OF rangeI])
  qed
qed simp_all

lemma sample_lib_attribute: "attribute sample_lib s obj name = sample_getattr [obj, VStr name]"
  by (simp add: attribute_def sample_lib_def sample_answer_def)

lemma sample_lib_quiet: "keeps [''print'', ''getattr''] (attribute sample_lib) sample_lib"
  unfolding keeps_def by (auto simp: sample_lib_attribute fun_eq_iff)

lemma sample_lib_best_in_direction: "best_in_direction sample_lib"
  unfolding best_in_direction_def sample_lib_attribute
proof (intro allI impI)
  fix p and s :: lib_state and kw study d bt
  assume "(''optuna.create_study'', [], kw, Inr study) \<in> set (trace sample_lib p s)"
    and d: "map_of kw ''direction'' = Some (VStr d)"
    and bt: "sample_getattr [study, VStr ''best_trial''] = Inr bt"
  from trace_answered_by [OF this(1)] have "sample_create_study kw = Inr study"
    by (auto simp: sample_lib_def)
  with d have "d = ''maximize'' \<and> study = VRef 40 \<or> d \<noteq> ''maximize'' \<and> study = VRef 43"
    by (auto simp: sample_create_study_def split: if_splits)
  then show "\<exists>ts b. sample_getattr [study, VStr ''trials''] = Inr (VList ts) \<and> bt \<in> set ts \<and>
                 sample_getattr [bt, VStr ''value''] = Inr (VFloat b) \<and>
                 (\<forall>t\<in>set ts. \<forall>a. sample_getattr [t, VStr ''value''] = Inr (VFloat a) \<longrightarrow>
                    (if d = ''maximize'' then a \<le> b else b \<le> a))"
  proof
    assume "d = ''maximize'' \<and> study = VRef 40"
    with bt have "d = ''maximize''" "study = VRef 40" "bt = VRef 51"
      by (auto simp: sample_getattr_def)
    then show ?thesis
      by (intro exI [of _ "[VRef 50, VRef 51, VRef 52]"] exI [of _ "21 / 25"])
        (simp add: sample_getattr_def)
  next
    assume "d \<noteq> ''maximize'' \<and> study = VRef 43"
    with bt have "d \<noteq> ''maximize''" "study = VRef 43" "bt = VRef 52"
      by (auto simp: sample_getattr_def)
    then show ?thesis
      by (intro exI [of _ "[VRef 50, VRef 51, VRef 52]"] exI [of _ "3 / 5"])
        (simp add: sample_getattr_def)
  qed
qed

lemma sample_run_study:
  "fst (run sample_lib (run_study g0 (VRef 9) ''demo'' None) s0) = Inr (VRef 40)"
  by (simp add: sample_eval g0_def)

text \<open>
  C4. When \<open>run_study\<close> returns, what it returns is the answer of its one call of
  \<^verbatim>\<open>optuna.create_study\<close>, made with the sampler and the name it was given, the storage
  derived from the name, the direction \<^verbatim>\<open>maximize\<close> and \<^verbatim>\<open>load_if_exists=True\<close>. Optuna
  is taken at its contract: printing and reading attributes do not change what the
  attributes are, and the best trial of a study is the best in the direction that the
  study was created for. Then the number that \<open>run_study\<close> printed is the number of trials
  of the study it returns, and the value it printed is that of the best trial of this
  study, which is one of its trials and whose value no trial of the study exceeds, because
  the study was created for \<^verbatim>\<open>maximize\<close>.
\<close>

theorem run_study_returns_the_study_with_its_best_trial:
  assumes quiet: "keeps [''print'', ''getattr''] (attribute H) H"
    and best: "best_in_direction H"
    and ret: "run H (run_study g sampler study_name callbacks) s = (Inr study, s_fin)"
  shows "(''optuna.create_study'', [],
          [(''sampler'', sampler), (''study_name'', VStr study_name),
           (''storage'', VStr (''sqlite:///_'' @ study_name @ ''.db'')),
           (''direction'', VStr ''maximize''), (''load_if_exists'', VBool True)],
          Inr study) \<in> set (trace H (run_study g sampler study_name callbacks) s) \<and>
         (\<exists>ts bt b u u'.
            attribute H s_fin study ''trials'' = Inr (VList ts) \<and>
            (''print'', [VStr ''Number of finished trials: '', VInt (int (length ts))], [], Inr u)
              \<in> set (trace H (run_study g sampler study_name callbacks) s) \<and>
            attribute H s_fin study ''best_trial'' = Inr bt \<and> bt \<in> set ts \<and>
            attribute H s_fin bt ''value'' = Inr (VFloat b) \<and>
            (''print'', [VStr ''  Value: '', VFloat b], [], Inr u')
              \<in> set (trace H (run_study g sampler study_name callbacks) s) \<and>
            (\<forall>t\<in>set ts. \<forall>a. attribute H s_fin t ''value'' = Inr (VFloat a) \<longrightarrow> a \<le> b))"
proof -
  let ?A = "attribute H"
  let ?kw = "[(''sampler'', sampler), (''study_name'', VStr study_name),
           (''storage'', VStr (''sqlite:///_'' @ study_name @ ''.db'')),
           (''direction'', VStr ''maximize''), (''load_if_exists'', VBool True)]"
  define inner where "inner st cm =
        pbind (with_cm cm
                 (hcall ''.optimize'' [st, VFun 0]
                    [(''n_trials'', VInt N_TRIALS),
                     (''n_jobs'', gn_workers g),
                     (''callbacks'', callbacks_arg callbacks)]
                    (lambda1 (\<lambda>trial. objective trial (gX g) (gy g)) # callbacks_funs callbacks))) (\<lambda>_.
        Return st)" for st cm
  define opt where "opt st =
        pbind (call ''parallel_backend'' [VStr ''dask'']
                 [(''n_jobs'', gn_workers g), (''client'', gc g), (''scatter'', VList [gX g, gy g])])
          (inner st)" for st
  define create where "create = pbind (call ''optuna.create_study'' [] ?kw) opt"
  define t3 where "t3 st items =
     pbind (for_in items (\<lambda>item. unpack2 item (\<lambda>key value.
              print [VFmt ''    {}: {}'' [key, value]]))) (\<lambda>_.
     Return st)" for st items
  define t2 where "t2 st params = pbind (lift (py_items params)) (t3 st)" for st params
  define t1 where "t1 st trial = pbind (call ''getattr'' [trial, VStr ''params''] []) (t2 st)"
    for st trial
  define tail where "tail st trial = pbind (call ''print'' [VStr ''  Params: ''] []) (\<lambda>_. t1 st trial)"
    for st trial
  define r6 where "r6 st trial v = pbind (call ''print'' [VStr ''  Value: '', v] []) (\<lambda>_. tail st trial)"
    for st trial v
  define r5 where "r5 st trial = pbind (call ''getattr'' [trial, VStr ''value''] []) (r6 st trial)"
    for st trial
  define r4 where "r4 st = pbind (call ''getattr'' [st, VStr ''best_trial''] []) (r5 st)" for st
  define r3 where "r3 st = pbind (call ''print'' [VStr ''Best trial:''] []) (\<lambda>_. r4 st)" for st
  define r2 where "r2 st n =
     pbind (call ''print'' [VStr ''Number of finished trials: '', n] []) (\<lambda>_. r3 st)" for st n
  define r1 where "r1 st trials = pbind (lift (py_len trials)) (r2 st)" for st trials
  define report where "report st = pbind (call ''getattr'' [st, VStr ''trials''] []) (r1 st)" for st
  have rs: "run_study g sampler study_name callbacks = pbind (timed (VStr study_name) create) report"
    unfolding run_study_def create_def opt_def inner_def report_def r1_def r2_def r3_def r4_def
      r5_def r6_def tail_def t1_def t2_def t3_def attr_def print_def ..
  let ?tr = "trace H (run_study g sampler study_name callbacks) s"

  from ret have "fst (run H (pbind (timed (VStr study_name) create) report) s) = Inr study"
    by (simp add: rs)
  from run_pbind_normal [OF this] obtain st sa where
    tm: "run H (timed (VStr study_name) create) s = (Inr st, sa)"
    and rep: "fst (run H (report st) sa) = Inr study"
    and tr: "?tr = trace H (timed (VStr study_name) create) s @ trace H (report st) sa"
    unfolding rs by blast
  from ret tm have run_rep: "run H (report st) sa = (Inr study, s_fin)"
    by (simp add: rs run_pbind)

  \<comment> \<open>the study is the one that was created\<close>
  from tm have "fst (run H (timed (VStr study_name) create) s) = Inr st" by simp
  from timed_normal [OF this] obtain sc where
    cr: "fst (run H create sc) = Inr st"
    and sub: "set (trace H create sc) \<subseteq> set (trace H (timed (VStr study_name) create) s)"
    by blast
  from step_call [OF cr [unfolded create_def]] obtain v sd where
    cr_run: "run H create sc = run H (opt v) sd"
    and cr_tr: "trace H create sc = (''optuna.create_study'', [], ?kw, Inr v) # trace H (opt v) sd"
    unfolding create_def by blast
  from cr cr_run have "fst (run H (opt v) sd) = Inr st" by simp
  from step_call [OF this [unfolded opt_def]] obtain cm se where
    "run H (opt v) sd = run H (inner v cm) se"
    unfolding opt_def by blast
  with \<open>fst (run H (opt v) sd) = Inr st\<close> have "fst (run H (inner v cm) se) = Inr st" by simp
  then have "st = v"
    unfolding inner_def by (rule result_of_const)
  with cr_tr sub tr have created: "(''optuna.create_study'', [], ?kw, Inr st) \<in> set ?tr"
    by auto

  \<comment> \<open>the report reads the study without changing it\<close>
  from step_quiet [OF quiet _ rep [unfolded report_def]] obtain trials sb where
    trials: "?A sa st ''trials'' = Inr trials" and sb: "?A sb = ?A sa"
    and run1: "run H (report st) sa = run H (r1 st trials) sb"
    and tr1: "trace H (report st) sa =
                (''getattr'', [st, VStr ''trials''], [], Inr trials) # trace H (r1 st trials) sb"
    unfolding report_def attribute_def by auto
  from rep run1 have "fst (run H (r1 st trials) sb) = Inr study" by simp
  from step_lift [OF this [unfolded r1_def]] obtain n where
    n: "py_len trials = Inr n"
    and run2: "run H (r1 st trials) sb = run H (r2 st n) sb"
    and tr2: "trace H (r1 st trials) sb = trace H (r2 st n) sb"
    unfolding r1_def by blast
  from rep run1 run2 have "fst (run H (r2 st n) sb) = Inr study" by simp
  from step_quiet [OF quiet _ this [unfolded r2_def]] obtain u sc' where
    sc': "?A sc' = ?A sb"
    and run3: "run H (r2 st n) sb = run H (r3 st) sc'"
    and tr3: "trace H (r2 st n) sb =
                (''print'', [VStr ''Number of finished trials: '', n], [], Inr u) # trace H (r3 st) sc'"
    unfolding r2_def by auto
  from rep run1 run2 run3 have "fst (run H (r3 st) sc') = Inr study" by simp
  from step_quiet [OF quiet _ this [unfolded r3_def]] obtain u_best sd' where
    sd': "?A sd' = ?A sc'"
    and run4: "run H (r3 st) sc' = run H (r4 st) sd'"
    and tr4: "trace H (r3 st) sc' =
                (''print'', [VStr ''Best trial:''], [], Inr u_best) # trace H (r4 st) sd'"
    unfolding r3_def by auto
  from rep run1 run2 run3 run4 have "fst (run H (r4 st) sd') = Inr study" by simp
  from step_quiet [OF quiet _ this [unfolded r4_def]] obtain bt se' where
    bt: "?A sd' st ''best_trial'' = Inr bt" and se': "?A se' = ?A sd'"
    and run5: "run H (r4 st) sd' = run H (r5 st bt) se'"
    and tr5: "trace H (r4 st) sd' =
                (''getattr'', [st, VStr ''best_trial''], [], Inr bt) # trace H (r5 st bt) se'"
    unfolding r4_def attribute_def by auto
  from rep run1 run2 run3 run4 run5 have "fst (run H (r5 st bt) se') = Inr study" by simp
  from step_quiet [OF quiet _ this [unfolded r5_def]] obtain x sf where
    x: "?A se' bt ''value'' = Inr x" and sf: "?A sf = ?A se'"
    and run6: "run H (r5 st bt) se' = run H (r6 st bt x) sf"
    and tr6: "trace H (r5 st bt) se' =
                (''getattr'', [bt, VStr ''value''], [], Inr x) # trace H (r6 st bt x) sf"
    unfolding r5_def attribute_def by auto
  from rep run1 run2 run3 run4 run5 run6 have "fst (run H (r6 st bt x) sf) = Inr study" by simp
  from step_quiet [OF quiet _ this [unfolded r6_def]] obtain u' sg where
    sg: "?A sg = ?A sf"
    and run7: "run H (r6 st bt x) sf = run H (tail st bt) sg"
    and tr7: "trace H (r6 st bt x) sf =
                (''print'', [VStr ''  Value: '', x], [], Inr u') # trace H (tail st bt) sg"
    unfolding r6_def by auto
  from run_rep run1 run2 run3 run4 run5 run6 run7
  have run_tail: "run H (tail st bt) sg = (Inr study, s_fin)" by simp

  \<comment> \<open>the rest prints the parameters and returns the study\<close>
  have "all_calls (\<lambda>f as kw. f \<in> set [''print'', ''getattr'']) (tail st bt)"
    unfolding tail_def t1_def t2_def t3_def
    by (intro all_calls_intros) (simp_all add: print_def)
  from keeps_run [OF quiet this, of sg] run_tail have fin: "?A s_fin = ?A sg" by simp
  from run_tail have "fst (run H (tail st bt) sg) = Inr study" by simp
  from step_call [OF this [unfolded tail_def]] obtain sh where
    "run H (tail st bt) sg = run H (t1 st bt) sh"
    unfolding tail_def by blast
  with run_tail have "fst (run H (t1 st bt) sh) = Inr study" by simp
  from step_call [OF this [unfolded t1_def]] obtain params si where
    "run H (t1 st bt) sh = run H (t2 st params) si"
    unfolding t1_def by blast
  with \<open>fst (run H (t1 st bt) sh) = Inr study\<close>
  have "fst (run H (t2 st params) si) = Inr study" by simp
  from step_lift [OF this [unfolded t2_def]] obtain items where
    "run H (t2 st params) si = run H (t3 st items) si"
    unfolding t2_def by blast
  with \<open>fst (run H (t2 st params) si) = Inr study\<close>
  have "fst (run H (t3 st items) si) = Inr study" by simp
  then have study: "study = st"
    unfolding t3_def by (rule result_of_const)

  \<comment> \<open>so what was read and printed holds of the study that is returned\<close>
  from fin sg sf se' sd' sc' sb have same: "?A s_fin = ?A sa" "?A s_fin = ?A sd'" "?A s_fin = ?A se'"
    by simp_all
  from trials bt x same study have
    f_trials: "?A s_fin study ''trials'' = Inr trials"
    and f_bt: "?A s_fin study ''best_trial'' = Inr bt"
    and f_x: "?A s_fin bt ''value'' = Inr x"
    by simp_all
  have direction: "map_of ?kw ''direction'' = Some (VStr ''maximize'')"
    by simp
  from ret have fin_state: "snd (run H (run_study g sampler study_name callbacks) s) = s_fin"
    by simp
  from created study have "(''optuna.create_study'', [], ?kw, Inr study) \<in> set ?tr"
    by simp
  from best [unfolded best_in_direction_def, rule_format, OF this direction,
      unfolded fin_state, OF f_bt]
  obtain ts b where
    ts: "?A s_fin study ''trials'' = Inr (VList ts)" and in_ts: "bt \<in> set ts"
    and b: "?A s_fin bt ''value'' = Inr (VFloat b)"
    and mx: "\<forall>t\<in>set ts. \<forall>a. ?A s_fin t ''value'' = Inr (VFloat a) \<longrightarrow> a \<le> b"
    by auto
  from ts f_trials n have n_eq: "n = VInt (int (length ts))" by simp
  from b f_x have x_eq: "x = VFloat b" by simp
  have sub1: "set (trace H (report st) sa) \<subseteq> set ?tr"
    using tr by auto
  from tr1 tr2 tr3 n_eq sub1
  have p1: "(''print'', [VStr ''Number of finished trials: '', VInt (int (length ts))], [], Inr u)
              \<in> set ?tr"
    by auto
  from tr1 tr2 tr3 tr4 tr5 tr6 tr7 x_eq sub1
  have p2: "(''print'', [VStr ''  Value: '', VFloat b], [], Inr u') \<in> set ?tr"
    by auto
  from created study ts p1 f_bt in_ts b p2 mx show ?thesis
    by blast
qed

theorem run_study_returns_the_study_with_its_best_trial_witness:
  "keeps [''print'', ''getattr''] (attribute sample_lib) sample_lib \<and>
   best_in_direction sample_lib \<and>
   fst (run sample_lib (run_study g0 (VRef 9) ''demo'' None) s0) = Inr (VRef 40) \<and>
   (''optuna.create_study'', [],
    [(''sampler'', VRef 9), (''study_name'', VStr ''demo''),
     (''storage'', VStr ''sqlite:///_demo.db''),
     (''direction'', VStr ''maximize''), (''load_if_exists'', VBool True)],
    Inr (VRef 40)) \<in> set (trace sample_lib (run_study g0 (VRef 9) ''demo'' None) s0) \<and>
   attribute sample_lib (snd (run sample_lib (run_study g0 (VRef 9) ''demo'' None) s0)) (VRef 40)
     ''trials'' = Inr (VList [VRef 50, VRef 51, VRef 52]) \<and>
   attribute sample_lib (snd (run sample_lib (run_study g0 (VRef 9) ''demo'' None) s0)) (VRef 51)
     ''value'' = Inr (VFloat (21 / 25)) \<and>
   attribute sample_lib (snd (run sample_lib (run_study g0 (VRef 9) ''demo'' None) s0)) (VRef 52)
     ''value'' = Inr (VFloat (3 / 5)) \<and>
   sample_create_study [(''direction'', VStr ''minimize'')] = Inr (VRef 43) \<and>
   attribute sample_lib (snd (run sample_lib (run_study g0 (VRef 9) ''demo'' None) s0)) (VRef 43)
     ''best_trial'' = Inr (VRef 52) \<and>
   (\<exists>u. (''print'', [VStr ''Number of finished trials: '', VInt 3], [], Inr u)
          \<in> set (trace sample_lib (run_study g0 (VRef 9) ''demo'' None) s0)) \<and>
   (\<exists>u. (''print'', [VStr ''  Value: '', VFloat (21 / 25)], [], Inr u)
          \<in> set (trace sample_lib (run_study g0 (VRef 9) ''demo'' None) s0))"
proof -
  let ?tr = "trace sample_lib (run_study g0 (VRef 9) ''demo'' None) s0"
  let ?fin = "snd (run sample_lib (run_study g0 (VRef 9) ''demo'' None) s0)"
  have ret: "run sample_lib (run_study g0 (VRef 9) ''demo'' None) s0 = (Inr (VRef 40), ?fin)"
    using sample_run_study by (metis prod.collapse)
  from run_study_returns_the_study_with_its_best_trial
    [OF sample_lib_quiet sample_lib_best_in_direction ret]
  obtain ts bt b u u' where
    created: "(''optuna.create_study'', [],
      [(''sampler'', VRef 9), (''study_name'', VStr ''demo''),
       (''storage'', VStr (''sqlite:///_'' @ ''demo'' @ ''.db'')),
       (''direction'', VStr ''maximize''), (''load_if_exists'', VBool True)],
      Inr (VRef 40)) \<in> set ?tr"
    and ts: "sample_getattr [VRef 40, VStr ''trials''] = Inr (VList ts)"
    and count: "(''print'', [VStr ''Number of finished trials: '', VInt (int (length ts))], [], Inr u)
                 \<in> set ?tr"
    and bt: "sample_getattr [VRef 40, VStr ''best_trial''] = Inr bt"
    and b: "sample_getattr [bt, VStr ''value''] = Inr (VFloat b)"
    and val: "(''print'', [VStr ''  Value: '', VFloat b], [], Inr u') \<in> set ?tr"
    unfolding sample_lib_attribute by blast
  from ts have "int (length ts) = 3"
    by (auto simp: sample_getattr_def)
  with count have count': "\<exists>u. (''print'', [VStr ''Number of finished trials: '', VInt 3], [], Inr u)
      \<in> set ?tr"
    by auto
  from bt have "bt = VRef 51"
    by (simp add: sample_getattr_def)
  with b have "b = 21 / 25"
    by (simp add: sample_getattr_def)
  with val have val': "\<exists>u. (''print'', [VStr ''  Value: '', VFloat (21 / 25)], [], Inr u) \<in> set ?tr"
    by auto
  from created have created': "(''optuna.create_study'', [],
      [(''sampler'', VRef 9), (''study_name'', VStr ''demo''),
       (''storage'', VStr ''sqlite:///_demo.db''),
       (''direction'', VStr ''maximize''), (''load_if_exists'', VBool True)],
      Inr (VRef 40)) \<in> set ?tr"
    by simp
  have attrs: "attribute sample_lib ?fin (VRef 40) ''trials'' = Inr (VList [VRef 50, VRef 51, VRef 52])"
    "attribute sample_lib ?fin (VRef 51) ''value'' = Inr (VFloat (21 / 25))"
    "attribute sample_lib ?fin (VRef 52) ''value'' = Inr (VFloat (3 / 5))"
    "sample_create_study [(''direction'', VStr ''minimize'')] = Inr (VRef 43)"
    "attribute sample_lib ?fin (VRef 43) ''best_trial'' = Inr (VRef 52)"
    by (simp_all add: sample_lib_attribute sample_getattr_def sample_create_study_def)
  from sample_lib_quiet sample_lib_best_in_direction sample_run_study created' attrs count' val'
  show ?thesis
    by (intro conjI)
qed

end
